theory Spec2Isabelle
  imports Main
begin

section \<open>JSON values, Python dictionaries and strings\<close>

text \<open>
  Both services exchange JSON-like Python values. A Python \<open>dict\<close> keeps its keys in
  insertion order, so it is an association list with at most one entry per key; numbers
  are integers (floats play no part in the code paths modelled here).
\<close>

datatype json = JNull | JBool bool | JInt int | JStr string
  | JList "json list" | JDict "(string \<times> json) list"

type_synonym 'v dict = "(string \<times> 'v) list"

text \<open>\<open>d[k] = v\<close>: an existing key keeps its position, a new key goes last.\<close>

fun dict_set :: "'v dict \<Rightarrow> string \<Rightarrow> 'v \<Rightarrow> 'v dict" where
  "dict_set [] k v = [(k, v)]"
| "dict_set ((k', v') # rest) k v =
     (if k' = k then (k, v) # rest else (k', v') # dict_set rest k v)"

text \<open>\<open>d.get(k, default)\<close>; \<open>d.get(k)\<close> is \<open>dict_get d k JNull\<close>.\<close>

definition dict_get :: "'v dict \<Rightarrow> string \<Rightarrow> 'v \<Rightarrow> 'v" where
  "dict_get d k dflt = (case map_of d k of None \<Rightarrow> dflt | Some v \<Rightarrow> v)"

text \<open>Python truthiness, as used by \<open>or\<close>, \<open>and\<close>, \<open>not\<close> and \<open>if\<close>.\<close>

fun truthy :: "json \<Rightarrow> bool" where
  "truthy JNull = False"
| "truthy (JBool b) = b"
| "truthy (JInt i) = (i \<noteq> 0)"
| "truthy (JStr s) = (s \<noteq> [])"
| "truthy (JList xs) = (xs \<noteq> [])"
| "truthy (JDict kvs) = (kvs \<noteq> [])"

definition py_or :: "json \<Rightarrow> json \<Rightarrow> json" where
  "py_or a b = (if truthy a then a else b)"

text \<open>\<open>v == n\<close> for an integer literal \<open>n\<close>: \<open>False == 0\<close> and \<open>True == 1\<close> hold in Python.\<close>

fun py_eq_int :: "json \<Rightarrow> int \<Rightarrow> bool" where
  "py_eq_int (JInt i) n = (i = n)"
| "py_eq_int (JBool b) n = ((if b then 1 else 0) = n)"
| "py_eq_int v n = False"

fun is_scalar :: "json \<Rightarrow> bool" where
  "is_scalar (JList xs) = False"
| "is_scalar (JDict kvs) = False"
| "is_scalar v = True"

fun type_name :: "json \<Rightarrow> string" where
  "type_name JNull = ''NoneType''"
| "type_name (JBool b) = ''bool''"
| "type_name (JInt i) = ''int''"
| "type_name (JStr s) = ''str''"
| "type_name (JList xs) = ''list''"
| "type_name (JDict kvs) = ''dict''"

subsection \<open>Decimal rendering and \<open>str\<close>\<close>

definition digit_char :: "nat \<Rightarrow> char" where
  "digit_char d = ''0123456789'' ! (d mod 10)"

function str_nat :: "nat \<Rightarrow> string" where
  "str_nat n =
     (if n < 10 then [digit_char n] else str_nat (n div 10) @ [digit_char (n mod 10)])"
  by pat_completeness auto
termination
  by (relation "measure id") auto

declare str_nat.simps [simp del]

definition str_int :: "int \<Rightarrow> string" where
  "str_int i = (if i < 0 then ''-'' @ str_nat (nat (- i)) else str_nat (nat i))"

fun join :: "string \<Rightarrow> string list \<Rightarrow> string" where
  "join sep [] = []"
| "join sep [x] = x"
| "join sep (x # y # ys) = x @ sep @ join sep (y # ys)"

text \<open>
  \<open>repr\<close> of a JSON-like value. A string is written between single quotes as it is, which
  is what Python prints for a string without quotes, backslashes or control characters.
\<close>

definition repr_str :: "string \<Rightarrow> string" where
  "repr_str s = [CHR 0x27] @ s @ [CHR 0x27]"

fun py_repr :: "json \<Rightarrow> string" where
  "py_repr JNull = ''None''"
| "py_repr (JBool b) = (if b then ''True'' else ''False'')"
| "py_repr (JInt i) = str_int i"
| "py_repr (JStr s) = repr_str s"
| "py_repr (JList xs) = ''['' @ join '', '' (map py_repr xs) @ '']''"
| "py_repr (JDict kvs) =
     ''{'' @ join '', '' (map (\<lambda>(k, v). repr_str k @ '': '' @ py_repr v) kvs) @ ''}''"

text \<open>\<open>str(v)\<close>, also what an f-string field \<open>{v}\<close> renders.\<close>

fun py_str :: "json \<Rightarrow> string" where
  "py_str (JStr s) = s"
| "py_str v = py_repr v"

section \<open>The payload flattener (\<open>call_orchestrator.parse_json\<close>)\<close>

text \<open>
  \<open>parse_json data parent_key result\<close> walks the value and stores every scalar leaf in
  \<open>result\<close> under its path. The two loops of the source are \<open>parse_items\<close> (over
  \<open>data.items()\<close>) and \<open>parse_elems\<close> (over \<open>enumerate(data)\<close>). The source's default
  arguments \<open>parent_key=''\<close> and \<open>result=None\<close> (replaced by a fresh \<open>{}\<close>) give
  \<open>flatten\<close>.
\<close>

fun parse_json :: "json \<Rightarrow> string \<Rightarrow> json dict \<Rightarrow> json dict"
and parse_items :: "(string \<times> json) list \<Rightarrow> string \<Rightarrow> json dict \<Rightarrow> json dict"
and parse_elems :: "json list \<Rightarrow> nat \<Rightarrow> string \<Rightarrow> json dict \<Rightarrow> json dict"
where
  "parse_json (JDict kvs) parent_key result = parse_items kvs parent_key result"
| "parse_json (JList xs) parent_key result = parse_elems xs 0 parent_key result"
| "parse_json JNull parent_key result = dict_set result parent_key JNull"
| "parse_json (JBool b) parent_key result = dict_set result parent_key (JBool b)"
| "parse_json (JInt i) parent_key result = dict_set result parent_key (JInt i)"
| "parse_json (JStr s) parent_key result = dict_set result parent_key (JStr s)"
| "parse_items [] parent_key result = result"
| "parse_items ((key, val) # rest) parent_key result =
     parse_items rest parent_key
       (parse_json val (if parent_key \<noteq> [] then parent_key @ ''.'' @ key else key) result)"
| "parse_elems [] index parent_key result = result"
| "parse_elems (item # rest) index parent_key result =
     parse_elems rest (Suc index) parent_key
       (parse_json item (parent_key @ ''['' @ str_nat index @ '']'') result)"

definition flatten :: "json \<Rightarrow> json dict" where
  "flatten data = parse_json data [] []"

text \<open>An already-flat mapping: a dictionary (distinct keys) whose values are all scalars.\<close>

definition is_flat :: "json dict \<Rightarrow> bool" where
  "is_flat kvs \<longleftrightarrow> distinct (map fst kvs) \<and> list_all (\<lambda>kv. is_scalar (snd kv)) kvs"

section \<open>HTTP, the log and the clock\<close>

text \<open>
  The two external services are reached through the \<open>requests\<close> library. A call either
  raises (no response) or returns a response: a status code, the \<open>X-Status-Reason\<close> header
  when present, and a body that is empty, not JSON, or JSON. The service is any function
  from the requests seen so far and the present request to what \<open>requests\<close> gives back,
  so every behaviour of the outside world over one invocation is covered. The state
  threaded through the code is the list of HTTP exchanges made (each request with what came
  back), the log records and what was printed.
\<close>

datatype http_method = GET | POST | PATCH | PUT | DELETE

record http_request =
  req_method :: http_method
  req_url :: string
  req_headers :: "(string \<times> string) list"
  req_query :: "(string \<times> string) list"
  req_json :: "json option"

datatype body = EmptyBody | Malformed string | JsonBody json

record response =
  status_code :: nat
  status_reason :: "string option"
  content :: body

datatype outcome = ConnectionFailed string | Responded response

type_synonym server = "http_request list \<Rightarrow> http_request \<Rightarrow> outcome"

datatype level = INFO | WARNING | ERROR

record io =
  exchanges :: "(http_request \<times> outcome) list"
  log :: "(level \<times> string) list"
  stdout :: "string list"

definition sent :: "io \<Rightarrow> http_request list" where
  "sent st = map fst (exchanges st)"

datatype exc_kind = EspoAPIError | RequestException | JSONDecodeError
  | AttributeError | KeyError | IndexError | TypeError

text \<open>An exception: its class and \<open>str(e)\<close>.\<close>

type_synonym exc = "exc_kind \<times> string"

definition http_send :: "server \<Rightarrow> http_request \<Rightarrow> io \<Rightarrow> outcome \<times> io" where
  "http_send srv req st =
     (let out = srv (sent st) req
      in (out, st\<lparr>exchanges := exchanges st @ [(req, out)]\<rparr>))"

text \<open>
  A log record is its level and the message template in ASCII (the orchestrator's Russian
  messages are given in English); interpolated values are left out but for the flattened
  \<open>key = value\<close> lines.
\<close>

definition logger :: "level \<Rightarrow> string \<Rightarrow> io \<Rightarrow> io" where
  "logger lv msg st = st\<lparr>log := log st @ [(lv, msg)]\<rparr>"

definition print :: "string \<Rightarrow> io \<Rightarrow> io" where
  "print msg st = st\<lparr>stdout := stdout st @ [msg]\<rparr>"

text \<open>\<open>response.json()\<close>: the parsed body, or the decoder's exception.\<close>

definition response_json :: "response \<Rightarrow> exc + json" where
  "response_json resp =
     (case content resp of
        JsonBody j \<Rightarrow> Inr j
      | Malformed msg \<Rightarrow> Inl (JSONDecodeError, msg)
      | EmptyBody \<Rightarrow> Inl (JSONDecodeError, ''Expecting value: line 1 column 1 (char 0)''))"

text \<open>
  \<open>datetime.datetime.now()\<close> and \<open>strftime('%Y%m%d%H%M%S')\<close>: each field is a zero-padded
  decimal number of fixed width.
\<close>

record datetime =
  year :: nat
  month :: nat
  day :: nat
  hour :: nat
  minute :: nat
  second :: nat
  microsecond :: nat

definition valid_datetime :: "datetime \<Rightarrow> bool" where
  "valid_datetime t \<longleftrightarrow>
     1 \<le> year t \<and> year t \<le> 9999 \<and> 1 \<le> month t \<and> month t \<le> 12 \<and>
     1 \<le> day t \<and> day t \<le> 31 \<and> hour t < 24 \<and> minute t < 60 \<and> second t < 60 \<and>
     microsecond t < 1000000"

definition pad2 :: "nat \<Rightarrow> string" where
  "pad2 n = [digit_char (n div 10), digit_char n]"

definition pad4 :: "nat \<Rightarrow> string" where
  "pad4 n = [digit_char (n div 1000), digit_char (n div 100), digit_char (n div 10), digit_char n]"

definition strftime :: "datetime \<Rightarrow> string" where
  "strftime t =
     pad4 (year t) @ pad2 (month t) @ pad2 (day t) @ pad2 (hour t) @ pad2 (minute t) @ pad2 (second t)"

definition same_second :: "datetime \<Rightarrow> datetime \<Rightarrow> bool" where
  "same_second t1 t2 \<longleftrightarrow>
     year t1 = year t2 \<and> month t1 = month t2 \<and> day t1 = day t2 \<and>
     hour t1 = hour t2 \<and> minute t1 = minute t2 \<and> second t1 = second t2"

section \<open>The CRM connector (\<open>crm_connector.py\<close>)\<close>

subsection \<open>\<open>http_build_query\<close>\<close>

text \<open>
  The parents of a leaf are list indices (Python \<open>int\<close>) and dictionary keys. The result
  is the \<open>pairs\<close> dictionary the source hands to \<open>urllib.parse.urlencode\<close>.
\<close>

datatype parent = Index nat | Key string

fun render_parent :: "parent \<Rightarrow> string" where
  "render_parent (Index i) = str_nat i"
| "render_parent (Key k) = k"

fun is_index :: "parent \<Rightarrow> bool" where
  "is_index (Index i) = True"
| "is_index (Key k) = False"

fun render_key_from :: "nat \<Rightarrow> parent list \<Rightarrow> string" where
  "render_key_from depth [] = []"
| "render_key_from depth (x # xs) =
     (if depth > 0 \<or> is_index x then ''['' @ render_parent x @ '']'' else render_parent x)
     @ render_key_from (Suc depth) xs"

definition render_key :: "parent list \<Rightarrow> string" where
  "render_key parents = render_key_from 0 parents"

fun encode :: "json \<Rightarrow> parent list \<Rightarrow> string dict \<Rightarrow> string dict"
and encode_elems :: "json list \<Rightarrow> nat \<Rightarrow> parent list \<Rightarrow> string dict \<Rightarrow> string dict"
and encode_items :: "(string \<times> json) list \<Rightarrow> parent list \<Rightarrow> string dict \<Rightarrow> string dict"
where
  "encode (JList vs) parents pairs = encode_elems vs 0 parents pairs"
| "encode (JDict kvs) parents pairs = encode_items kvs parents pairs"
| "encode JNull parents pairs = dict_set pairs (render_key parents) (py_str JNull)"
| "encode (JBool b) parents pairs = dict_set pairs (render_key parents) (py_str (JBool b))"
| "encode (JInt i) parents pairs = dict_set pairs (render_key parents) (py_str (JInt i))"
| "encode (JStr s) parents pairs = dict_set pairs (render_key parents) (py_str (JStr s))"
| "encode_elems [] i parents pairs = pairs"
| "encode_elems (v # vs) i parents pairs =
     encode_elems vs (Suc i) parents (encode v (parents @ [Index i]) pairs)"
| "encode_items [] parents pairs = pairs"
| "encode_items ((k, v) # kvs) parents pairs =
     encode_items kvs parents (encode v (parents @ [Key k]) pairs)"

definition http_build_query :: "json dict \<Rightarrow> string dict" where
  "http_build_query data = encode (JDict data) [] []"

subsection \<open>\<open>EspoAPI\<close>\<close>

definition crm_url :: string where
  "crm_url = ''http://192.168.1.100:8080''"

definition api_key :: string where
  "api_key = ''2b295072ff26b1aa69a2968863592941''"

definition normalize_url :: "string \<Rightarrow> string" where
  "normalize_url action = crm_url @ ''/api/v1/'' @ action"

definition parse_reason :: "response \<Rightarrow> string" where
  "parse_reason resp = (case status_reason resp of None \<Rightarrow> ''Unknown Error'' | Some r \<Rightarrow> r)"

definition crm_request :: "http_method \<Rightarrow> string \<Rightarrow> json dict \<Rightarrow> http_request" where
  "crm_request method action params =
     (if method \<in> {POST, PATCH, PUT}
      then \<lparr>req_method = method, req_url = normalize_url action,
            req_headers = [(''X-Api-Key'', api_key)], req_query = [],
            req_json = Some (JDict params)\<rparr>
      else \<lparr>req_method = method, req_url = normalize_url action,
            req_headers = [(''X-Api-Key'', api_key)], req_query = http_build_query params,
            req_json = None\<rparr>)"

text \<open>
  \<open>EspoAPI.request\<close>: the response, or the exception raised (by \<open>requests\<close> itself, for a
  status other than 200, for an empty body).
\<close>

definition request :: "server \<Rightarrow> http_method \<Rightarrow> string \<Rightarrow> json dict \<Rightarrow> io \<Rightarrow> (exc + response) \<times> io" where
  "request srv method action params st =
     (let st1 = logger INFO ''Sending request'' st;
          (out, st2) = http_send srv (crm_request method action params) st1
      in case out of
           ConnectionFailed msg \<Rightarrow> (Inl (RequestException, msg), st2)
         | Responded resp \<Rightarrow>
             if status_code resp \<noteq> 200 then
               (Inl (EspoAPIError,
                     ''Wrong request, status code '' @ str_nat (status_code resp)
                       @ '', reason: '' @ parse_reason resp),
                logger ERROR ''Request failed'' st2)
             else if content resp = EmptyBody then
               (Inl (EspoAPIError, ''Empty response content''),
                logger ERROR ''Empty response content'' st2)
             else (Inr resp, st2))"

subsection \<open>\<open>EspoCrmClient\<close>\<close>

definition error_result :: "exc \<Rightarrow> json dict" where
  "error_result e = [(''status'', JStr ''error''), (''message'', JStr (snd e))]"

text \<open>\<open>now\<close> is what \<open>datetime.datetime.now()\<close> returns when \<open>create_lead\<close> runs.\<close>

definition timestamped_name :: "json dict \<Rightarrow> datetime \<Rightarrow> string" where
  "timestamped_name payload now =
     py_str (dict_get payload ''name'' (JStr ''Lead'')) @ '' - '' @ strftime now"

definition create_lead :: "server \<Rightarrow> datetime \<Rightarrow> json dict \<Rightarrow> io \<Rightarrow> json dict \<times> io" where
  "create_lead srv now payload st =
     (let payload' = dict_set payload ''name'' (JStr (timestamped_name payload now))
      in case request srv POST ''Lead'' payload' st of
           (Inl e, st1) \<Rightarrow> (error_result e, logger ERROR ''Failed to create lead'' st1)
         | (Inr resp, st1) \<Rightarrow>
             (case response_json resp of
                Inl e \<Rightarrow> (error_result e, logger ERROR ''Failed to create lead'' st1)
              | Inr data \<Rightarrow>
                  ([(''status'', JStr ''success''), (''lead'', data)],
                   logger INFO ''Lead created'' st1)))"

definition contact_payload :: "json \<Rightarrow> json \<Rightarrow> json \<Rightarrow> json dict" where
  "contact_payload first_name last_name phone_number =
     [(''name'', JStr (py_str first_name @ '' '' @ py_str last_name)),
      (''firstName'', first_name),
      (''lastName'', last_name),
      (''phoneNumber'', phone_number)]"

definition create_contact :: "server \<Rightarrow> json \<Rightarrow> json \<Rightarrow> json \<Rightarrow> io \<Rightarrow> json dict \<times> io" where
  "create_contact srv first_name last_name phone_number st =
     (let payload = contact_payload first_name last_name phone_number
      in case request srv POST ''Contact'' payload st of
           (Inl e, st1) \<Rightarrow> (error_result e, logger ERROR ''Failed to create contact'' st1)
         | (Inr resp, st1) \<Rightarrow>
             (case response_json resp of
                Inl e \<Rightarrow> (error_result e, logger ERROR ''Failed to create contact'' st1)
              | Inr data \<Rightarrow>
                  ([(''status'', JStr ''success''), (''contact'', data)],
                   logger INFO ''Contact created'' st1)))"

text \<open>\<open>data["list"][0]\<close>, with the exceptions of each of the two subscripts.\<close>

definition first_of_list :: "json dict \<Rightarrow> exc + json" where
  "first_of_list data =
     (case map_of data ''list'' of
        None \<Rightarrow> Inl (KeyError, repr_str ''list'')
      | Some (JList []) \<Rightarrow> Inl (IndexError, ''list index out of range'')
      | Some (JList (c # cs)) \<Rightarrow> Inr c
      | Some (JStr []) \<Rightarrow> Inl (IndexError, ''string index out of range'')
      | Some (JStr (c # cs)) \<Rightarrow> Inr (JStr [c])
      | Some (JDict kvs) \<Rightarrow> Inl (KeyError, ''0'')
      | Some v \<Rightarrow> Inl (TypeError, repr_str (type_name v) @ '' object is not subscriptable''))"

definition contact_query :: "json \<Rightarrow> json dict" where
  "contact_query phone_number =
     [(''where[0][type]'', JStr ''equals''),
      (''where[0][attribute]'', JStr ''phoneNumber''),
      (''where[0][value]'', phone_number)]"

definition lead_payload :: "json \<Rightarrow> json \<Rightarrow> json \<Rightarrow> json dict" where
  "lead_payload first_name last_name phone_number =
     [(''firstName'', first_name), (''lastName'', last_name), (''phoneNumber'', phone_number)]"

text \<open>
  \<open>get_contact\<close> returns a result mapping, or raises: its second half (from
  \<open>data.get("total", 0)\<close> on) is outside the \<open>try\<close>.
\<close>

definition get_contact :: "server \<Rightarrow> datetime \<Rightarrow> json \<Rightarrow> json \<Rightarrow> json \<Rightarrow> io \<Rightarrow> (exc + json dict) \<times> io" where
  "get_contact srv now lead_name last_name phone_number st =
     (let query = contact_query phone_number
      in case request srv GET ''Contact'' query st of
           (Inl e, st1) \<Rightarrow> (Inr (error_result e), logger ERROR ''Error fetching contact'' st1)
         | (Inr resp, st1) \<Rightarrow>
             (case response_json resp of
                Inl e \<Rightarrow> (Inr (error_result e), logger ERROR ''Error fetching contact'' st1)
              | Inr (JDict data) \<Rightarrow>
                  (let total = dict_get data ''total'' (JInt 0);
                       st2 = logger INFO ''Found contact(s) for phone'' st1
                   in if py_eq_int total 0 then
                        (let (contact_result, st3) =
                               create_contact srv lead_name last_name phone_number st2
                         in if map_of contact_result ''status'' \<noteq> Some (JStr ''success'')
                            then (Inr contact_result, st3)
                            else
                              (let (lead_result, st4) =
                                     create_lead srv now
                                       (lead_payload lead_name last_name phone_number) st3
                               in (Inr [(''status'', JStr ''created''),
                                        (''contact'', JDict contact_result),
                                        (''lead'', JDict lead_result)], st4)))
                      else
                        (case first_of_list data of
                           Inl e \<Rightarrow> (Inl e, st2)
                         | Inr contact \<Rightarrow>
                             (let (lead_result, st3) =
                                    create_lead srv now
                                      (lead_payload lead_name last_name phone_number) st2
                              in (Inr [(''status'', JStr ''success''),
                                       (''contact'', contact),
                                       (''lead'', JDict lead_result)], st3))))
              | Inr v \<Rightarrow>
                  (Inl (AttributeError,
                        repr_str (type_name v) @ '' object has no attribute '' @ repr_str ''get''),
                   st1)))"

text \<open>
  \<open>push_to_crm\<close>, the bus operation: \<open>except Exception\<close> catches whatever \<open>get_contact\<close>
  raises, so the operation always returns a mapping.
\<close>

definition push_to_crm :: "server \<Rightarrow> datetime \<Rightarrow> json dict \<Rightarrow> io \<Rightarrow> json dict \<times> io" where
  "push_to_crm srv now params st =
     (let first_name = dict_get params ''firstName'' JNull;
          last_name = dict_get params ''lastName'' JNull;
          phone = dict_get params ''phoneNumber'' JNull;
          st1 = logger INFO ''Pushing lead to CRM'' st
      in case get_contact srv now first_name last_name phone st1 of
           (Inr result, st2) \<Rightarrow>
             ([(''status'', JStr ''pushed''), (''crm_result'', JDict result)],
              logger INFO ''CRM push result'' st2)
         | (Inl e, st2) \<Rightarrow> (error_result e, logger ERROR ''Error pushing to CRM'' st2))"

text \<open>What the claims count: the requests of each kind among those issued.\<close>

definition is_contact_query :: "http_request \<Rightarrow> bool" where
  "is_contact_query r \<longleftrightarrow> req_method r = GET \<and> req_url r = normalize_url ''Contact''"

definition is_contact_create :: "http_request \<Rightarrow> bool" where
  "is_contact_create r \<longleftrightarrow> req_method r = POST \<and> req_url r = normalize_url ''Contact''"

definition is_lead_create :: "http_request \<Rightarrow> bool" where
  "is_lead_create r \<longleftrightarrow> req_method r = POST \<and> req_url r = normalize_url ''Lead''"

text \<open>The \<open>name\<close> of each lead-create request, in the order sent.\<close>

definition sent_name :: "http_request \<Rightarrow> json option" where
  "sent_name r = (case req_json r of Some (JDict d) \<Rightarrow> map_of d ''name'' | _ \<Rightarrow> None)"

definition lead_names :: "http_request list \<Rightarrow> json option list" where
  "lead_names rs = map sent_name (filter is_lead_create rs)"

text \<open>A CRM sub-step fails at the HTTP level: a status other than 200, or an empty body.\<close>

fun http_failure :: "outcome \<Rightarrow> bool" where
  "http_failure (Responded resp) \<longleftrightarrow> status_code resp \<noteq> 200 \<or> content resp = EmptyBody"
| "http_failure (ConnectionFailed msg) \<longleftrightarrow> False"

section \<open>The call orchestrator (\<open>call_orchestrator.py\<close>)\<close>

definition tel_url :: string where
  "tel_url = ''http://192.168.1.105:8801/call''"

text \<open>\<open>requests.post(url, headers=..., data=json.dumps(payload))\<close>.\<close>

definition tel_request :: "json dict \<Rightarrow> http_request" where
  "tel_request payload =
     \<lparr>req_method = POST, req_url = tel_url,
      req_headers = [(''Content-Type'', ''application/json'')], req_query = [],
      req_json = Some (JDict payload)\<rparr>"

text \<open>
  \<open>number[-9:]\<close>: the last nine items of a string or list (all of it when shorter); any
  other value cannot be sliced and the subscript raises.
\<close>

fun slice_last9 :: "json \<Rightarrow> exc + json" where
  "slice_last9 (JStr s) = Inr (JStr (drop (length s - 9) s))"
| "slice_last9 (JList xs) = Inr (JList (drop (length xs - 9) xs))"
| "slice_last9 (JDict kvs) = Inl (TypeError, ''unhashable type: '' @ repr_str ''slice'')"
| "slice_last9 v = Inl (TypeError, repr_str (type_name v) @ '' object is not subscriptable'')"

text \<open>
  \<open>make_call\<close>: the slice is outside the \<open>try\<close>; inside it, a connection failure, a 4xx
  or 5xx status (\<open>raise_for_status\<close>) and a body that is not JSON (a
  \<open>RequestException\<close> in \<open>requests\<close> from 2.27 on) are printed and give \<open>None\<close>.
\<close>

definition make_call :: "server \<Rightarrow> json \<Rightarrow> io \<Rightarrow> (exc + json option) \<times> io" where
  "make_call srv number st =
     (case slice_last9 number of
        Inl e \<Rightarrow> (Inl e, st)
      | Inr number' \<Rightarrow>
          (let payload = [(''action'', JStr ''call''), (''number'', number')];
               (out, st1) = http_send srv (tel_request payload) st
           in case out of
                ConnectionFailed msg \<Rightarrow> (Inr None, print ''Request error'' st1)
              | Responded resp \<Rightarrow>
                  if 400 \<le> status_code resp \<and> status_code resp < 600
                  then (Inr None, print ''Request error'' st1)
                  else (case response_json resp of
                          Inl e \<Rightarrow> (Inr None, print ''Request error'' st1)
                        | Inr j \<Rightarrow> (Inr (Some j), st1))))"

text \<open>
  The status query of \<open>start_call\<close> (its \<open>try\<close> block): any exception, from the request or
  from \<open>.json()\<close>, is logged and replaced by \<open>{"status": "idle"}\<close>. The HTTP status code
  is not looked at.
\<close>

definition query_status :: "server \<Rightarrow> io \<Rightarrow> json \<times> io" where
  "query_status srv st =
     (let (out, st1) = http_send srv (tel_request [(''action'', JStr ''get_status'')]) st
      in case out of
           ConnectionFailed msg \<Rightarrow>
             (JDict [(''status'', JStr ''idle'')],
              logger ERROR ''Error while getting the call status'' st1)
         | Responded resp \<Rightarrow>
             (case response_json resp of
                Inl e \<Rightarrow>
                  (JDict [(''status'', JStr ''idle'')],
                   logger ERROR ''Error while getting the call status'' st1)
              | Inr j \<Rightarrow> (j, st1)))"

text \<open>\<open>parsed_data.get(a) or parsed_data.get(b)\<close>.\<close>

definition resolve :: "json dict \<Rightarrow> string \<Rightarrow> string \<Rightarrow> json" where
  "resolve parsed_data a b = py_or (dict_get parsed_data a JNull) (dict_get parsed_data b JNull)"

definition log_items :: "json dict \<Rightarrow> io \<Rightarrow> io" where
  "log_items parsed_data st =
     foldl (\<lambda>s kv. logger INFO (fst kv @ '' = '' @ py_str (snd kv)) s) st parsed_data"

definition lead_id_of :: "json dict \<Rightarrow> json" where
  "lead_id_of parsed_data =
     resolve parsed_data ''crm_result.lead.lead.id'' ''crm_result.contact.id''"

definition number_id_of :: "json dict \<Rightarrow> json" where
  "number_id_of parsed_data =
     resolve parsed_data ''crm_result.lead.lead.phoneNumber'' ''crm_result.contact.phoneNumber''"

definition created_by_id_of :: "json dict \<Rightarrow> json" where
  "created_by_id_of parsed_data =
     resolve parsed_data ''crm_result.lead.lead.createdById'' ''crm_result.contact.createdById''"

text \<open>
  \<open>start_call\<close> returns \<open>None\<close> (here \<open>()\<close>) or raises: \<open>status_response.get\<close> and
  \<open>make_call\<close>'s slice are outside every \<open>try\<close>.
\<close>

definition start_call :: "server \<Rightarrow> json dict \<Rightarrow> io \<Rightarrow> (exc + unit) \<times> io" where
  "start_call srv params st =
     (let data = dict_get params ''result'' (JDict []);
          parsed_data = flatten data;
          st1 = log_items parsed_data st;
          lead_id = lead_id_of parsed_data;
          number_id = number_id_of parsed_data;
          created_by_id = created_by_id_of parsed_data
      in if \<not> (truthy lead_id \<and> truthy number_id \<and> truthy created_by_id) then
           (Inr (), logger WARNING ''Not enough data to initiate a call'' st1)
         else
           (let st2 = logger INFO ''lead_id, created_by_id, number_id'' st1;
                (status_response, st3) = query_status srv st2
            in case status_response of
                 JDict sr \<Rightarrow>
                   (let current_status = dict_get sr ''status'' (JStr ''idle'');
                        st4 = logger INFO ''Current call status'' st3
                    in if current_status = JStr ''idle'' then
                         (case make_call srv number_id st4 of
                            (Inl e, st5) \<Rightarrow> (Inl e, st5)
                          | (Inr r, st5) \<Rightarrow> (Inr (), st5))
                       else
                         (Inr (),
                          logger INFO ''A call is already active, no new call is initiated'' st4))
               | v \<Rightarrow>
                   (Inl (AttributeError,
                         repr_str (type_name v) @ '' object has no attribute '' @ repr_str ''get''),
                    st3)))"

text \<open>Requests to the telephony endpoint, and the call placements among them.\<close>

definition is_telephony :: "http_request \<Rightarrow> bool" where
  "is_telephony r \<longleftrightarrow> req_url r = tel_url"

definition is_placement :: "http_request \<Rightarrow> bool" where
  "is_placement r \<longleftrightarrow>
     req_url r = tel_url \<and>
     (case req_json r of
        Some (JDict d) \<Rightarrow> map_of d ''action'' = Some (JStr ''call'')
      | _ \<Rightarrow> False)"

text \<open>
  The requests issued by a run that started in \<open>st\<close> and ended in \<open>st'\<close>, and what came
  back for them.
\<close>

definition issued :: "io \<Rightarrow> io \<Rightarrow> http_request list" where
  "issued st st' = drop (length (sent st)) (sent st')"

definition replies :: "io \<Rightarrow> io \<Rightarrow> outcome list" where
  "replies st st' = map snd (drop (length (exchanges st)) (exchanges st'))"

definition exchanged :: "io \<Rightarrow> io \<Rightarrow> (http_request \<times> outcome) list" where
  "exchanged st st' = drop (length (exchanges st)) (exchanges st')"

section \<open>Notions used to state the claims\<close>

text \<open>The state in which \<open>get_contact\<close> goes on after its query returned.\<close>

definition after_query :: "server \<Rightarrow> json \<Rightarrow> io \<Rightarrow> io" where
  "after_query srv phone_number st =
     logger INFO ''Found contact(s) for phone''
       (snd (request srv GET ''Contact'' (contact_query phone_number) st))"

text \<open>A mapping whose \<open>status\<close> is \<open>"error"\<close> and which carries a \<open>message\<close>.\<close>

definition reports_error :: "json dict \<Rightarrow> bool" where
  "reports_error d \<longleftrightarrow>
     map_of d ''status'' = Some (JStr ''error'') \<and>
     (case map_of d ''message'' of Some (JStr m) \<Rightarrow> True | _ \<Rightarrow> False)"

text \<open>
  Where \<open>push_to_crm\<close> reports a failure under its status \<open>"pushed"\<close>: such an error
  mapping is the \<open>crm_result\<close>; or the \<open>crm_result\<close> has status \<open>"created"\<close> or
  \<open>"success"\<close> and such an error mapping is its \<open>lead\<close>.
\<close>

definition error_as_crm_result :: "json dict \<Rightarrow> bool" where
  "error_as_crm_result res \<longleftrightarrow>
     map_of res ''status'' = Some (JStr ''pushed'') \<and>
     (case map_of res ''crm_result'' of
        Some (JDict cr) \<Rightarrow> reports_error cr
      | _ \<Rightarrow> False)"

definition error_as_lead :: "json dict \<Rightarrow> bool" where
  "error_as_lead res \<longleftrightarrow>
     map_of res ''status'' = Some (JStr ''pushed'') \<and>
     (case map_of res ''crm_result'' of
        Some (JDict cr) \<Rightarrow>
          (map_of cr ''status'' = Some (JStr ''created'') \<or>
           map_of cr ''status'' = Some (JStr ''success'')) \<and>
          (case map_of cr ''lead'' of Some (JDict lr) \<Rightarrow> reports_error lr | _ \<Rightarrow> False)
      | _ \<Rightarrow> False)"

text \<open>
  The place that goes with the request that failed: \<open>lead\<close> of the \<open>crm_result\<close> for the
  lead-create, the \<open>crm_result\<close> itself for the contact query and the contact-create.
\<close>

definition failure_reported :: "http_request \<Rightarrow> json dict \<Rightarrow> bool" where
  "failure_reported r res \<longleftrightarrow>
     (if is_lead_create r then error_as_lead res
      else (is_contact_query r \<or> is_contact_create r) \<and> error_as_crm_result res)"

text \<open>
  The telephony status \<open>start_call\<close> works with: the \<open>status\<close> of the status response
  (\<open>"idle"\<close> when the key is absent), when that response is a mapping.
\<close>

definition observed_status :: "server \<Rightarrow> io \<Rightarrow> json option" where
  "observed_status srv st =
     (case fst (query_status srv st) of
        JDict sr \<Rightarrow> Some (dict_get sr ''status'' (JStr ''idle''))
      | _ \<Rightarrow> None)"

text \<open>The falsy scalars: \<open>None\<close>, \<open>False\<close>, \<open>0\<close> and the empty string.\<close>

definition falsy_values :: "json set" where
  "falsy_values = {JNull, JBool False, JInt 0, JStr []}"

text \<open>
  A field with the two paths \<open>a\<close> and \<open>b\<close> is present when one of them is a key of the
  flattened event; its value is falsy when every path that is a key holds a falsy scalar.
\<close>

definition alias_present :: "json dict \<Rightarrow> string \<Rightarrow> string \<Rightarrow> bool" where
  "alias_present parsed a b \<longleftrightarrow> map_of parsed a \<noteq> None \<or> map_of parsed b \<noteq> None"

definition alias_falsy :: "json dict \<Rightarrow> string \<Rightarrow> string \<Rightarrow> bool" where
  "alias_falsy parsed a b \<longleftrightarrow>
     (case map_of parsed a of None \<Rightarrow> True | Some v \<Rightarrow> v \<in> falsy_values) \<and>
     (case map_of parsed b of None \<Rightarrow> True | Some v \<Rightarrow> v \<in> falsy_values)"

definition status_request :: http_request where
  "status_request = tel_request [(''action'', JStr ''get_status'')]"

text \<open>The placement request for a phone number given as a string.\<close>

definition call_request :: "string \<Rightarrow> http_request" where
  "call_request s = tel_request [(''action'', JStr ''call''), (''number'', JStr (drop (length s - 9) s))]"

text \<open>The status query raises: no response, or a body that \<open>.json()\<close> cannot parse.\<close>

definition query_raises :: "outcome \<Rightarrow> bool" where
  "query_raises out \<longleftrightarrow>
     (case out of
        ConnectionFailed msg \<Rightarrow> True
      | Responded resp \<Rightarrow> (case content resp of JsonBody j \<Rightarrow> False | _ \<Rightarrow> True))"

subsection \<open>Concrete services and inputs\<close>

definition ok_json :: "json \<Rightarrow> outcome" where
  "ok_json j = Responded \<lparr>status_code = 200, status_reason = None, content = JsonBody j\<rparr>"

definition status_only :: "nat \<Rightarrow> outcome" where
  "status_only code =
     Responded \<lparr>status_code = code, status_reason = None, content = Malformed ''<html>''\<rparr>"

text \<open>A service that gives the \<open>k\<close>-th outcome of a list to the \<open>k\<close>-th request.\<close>

definition scripted :: "outcome list \<Rightarrow> server" where
  "scripted outs history req =
     (if length history < length outs then outs ! length history
      else ConnectionFailed ''no reply'')"

definition io0 :: io where
  "io0 = \<lparr>exchanges = [], log = [], stdout = []\<rparr>"

definition ann :: "json dict" where
  "ann = [(''firstName'', JStr ''Ann''), (''lastName'', JStr ''Lee''),
          (''phoneNumber'', JStr ''+998901234567'')]"

definition noon :: datetime where
  "noon = \<lparr>year = 2024, month = 3, day = 9, hour = 12, minute = 0, second = 5,
           microsecond = 1\<rparr>"

definition no_contacts :: json where
  "no_contacts = JDict [(''total'', JInt 0), (''list'', JList [])]"

definition two_contacts :: json where
  "two_contacts =
     JDict [(''total'', JInt 2),
            (''list'', JList [JDict [(''id'', JStr ''c1'')], JDict [(''id'', JStr ''c2'')]])]"

definition noon_later :: datetime where
  "noon_later = noon\<lparr>microsecond := 999999\<rparr>"

definition next_second :: datetime where
  "next_second = noon\<lparr>second := 6\<rparr>"

definition four_replies :: server where
  "four_replies = scripted [ok_json two_contacts, ok_json (JDict [(''id'', JStr ''l1'')]),
                            ok_json two_contacts, ok_json (JDict [(''id'', JStr ''l2'')])]"

text \<open>An event as \<open>push_to_crm\<close> produces it, with a lead carrying the three fields.\<close>

definition lead_event :: "json \<Rightarrow> json \<Rightarrow> json \<Rightarrow> json dict" where
  "lead_event lead_id phone created_by =
     [(''result'',
       JDict [(''status'', JStr ''pushed''),
              (''crm_result'',
               JDict [(''status'', JStr ''success''),
                      (''lead'',
                       JDict [(''status'', JStr ''success''),
                              (''lead'', JDict [(''id'', lead_id), (''phoneNumber'', phone),
                                               (''createdById'', created_by)])])])])]"

text \<open>The same event whose lead has no \<open>createdById\<close>.\<close>

definition event_without_creator :: "json dict" where
  "event_without_creator =
     [(''result'',
       JDict [(''status'', JStr ''pushed''),
              (''crm_result'',
               JDict [(''status'', JStr ''success''),
                      (''lead'',
                       JDict [(''status'', JStr ''success''),
                              (''lead'', JDict [(''id'', JStr ''L1''),
                                               (''phoneNumber'', JStr ''+998901234567'')])])])])]"

definition idle_reply :: outcome where
  "idle_reply = ok_json (JDict [(''status'', JStr ''idle'')])"

text \<open>A 503 answer of the telephony endpoint whose body is a JSON error report.\<close>

definition error_503 :: outcome where
  "error_503 =
     Responded \<lparr>status_code = 503, status_reason = None,
                content = JsonBody (JDict [(''status'', JStr ''error''),
                                           (''message'', JStr ''Service Unavailable'')])\<rparr>"

section \<open>Properties of the flattener\<close>

lemma dict_set_fresh: "k \<notin> fst ` set d \<Longrightarrow> dict_set d k v = d @ [(k, v)]"
  by (induction d) auto

lemma map_of_dict_set: "map_of (dict_set d k v) k = Some v"
  by (induction d) auto

lemma dict_set_keys:
  "map fst (dict_set d k v) = (if k \<in> set (map fst d) then map fst d else map fst d @ [k])"
  by (induction d) (auto simp: rev_image_eqI)

lemma dict_set_scalars:
  "list_all (\<lambda>kv. is_scalar (snd kv)) d \<Longrightarrow> is_scalar v \<Longrightarrow>
   list_all (\<lambda>kv. is_scalar (snd kv)) (dict_set d k v)"
  by (induction d) auto

lemma dict_set_flat: "is_flat d \<Longrightarrow> is_scalar v \<Longrightarrow> is_flat (dict_set d k v)"
  by (simp add: is_flat_def dict_set_keys dict_set_scalars)

lemma parse_json_scalar: "is_scalar v \<Longrightarrow> parse_json v k result = dict_set result k v"
  by (cases v) auto

text \<open>Under an empty prefix, a flat mapping is copied entry by entry behind what is there.\<close>

lemma parse_items_flat:
  "distinct (map fst (result @ kvs)) \<Longrightarrow> list_all (\<lambda>kv. is_scalar (snd kv)) kvs \<Longrightarrow>
   parse_items kvs [] result = result @ kvs"
proof (induction kvs arbitrary: result)
  case Nil
  then show ?case by simp
next
  case (Cons kv kvs)
  obtain k v where kv: "kv = (k, v)" by (cases kv)
  from Cons.prems kv have fresh: "k \<notin> fst ` set result" and sc: "is_scalar v"
    by auto
  from Cons.prems kv have d: "distinct (map fst ((result @ [(k, v)]) @ kvs))"
    by auto
  from Cons.prems have rest: "list_all (\<lambda>kv. is_scalar (snd kv)) kvs"
    by simp
  show ?case
    using Cons.IH[OF d rest]
    by (simp add: kv parse_json_scalar[OF sc] dict_set_fresh[OF fresh])
qed

lemma flatten_flat: "is_flat kvs \<Longrightarrow> flatten (JDict kvs) = kvs"
  using parse_items_flat[of "[]" kvs] by (simp add: is_flat_def flatten_def)

text \<open>Whatever is flattened, the result is a flat mapping.\<close>

lemma parse_json_flat:
  "is_flat r \<Longrightarrow> is_flat (parse_json data p r)"
  "is_flat r \<Longrightarrow> is_flat (parse_items kvs p r)"
  "is_flat r \<Longrightarrow> is_flat (parse_elems xs i p r)"
  by (induction data p r and kvs p r and xs i p r
      rule: parse_json_parse_items_parse_elems.induct)
     (simp_all add: dict_set_flat)

lemma flatten_is_flat: "is_flat (flatten data)"
proof -
  have "is_flat []" by (simp add: is_flat_def)
  then show ?thesis unfolding flatten_def by (rule parse_json_flat)
qed

lemma flatten_flatten: "flatten (JDict (flatten data)) = flatten data"
  by (rule flatten_flat) (rule flatten_is_flat)

text \<open>
  Claim C8. Flattening \<open>{"a": {"b": 1}}\<close> gives \<open>{"a.b": 1}\<close>, flattening
  \<open>{"a": [1, 2]}\<close> gives \<open>{"a[0]": 1, "a[1]": 2}\<close>, and flattening a mapping that is
  already flat (string keys, scalar values) gives that same mapping, entry for entry, so
  that flattening it once more changes nothing.
\<close>

theorem flatten_examples_idempotent:
  "flatten (JDict [(''a'', JDict [(''b'', JInt 1)])]) = [(''a.b'', JInt 1)] \<and>
   flatten (JDict [(''a'', JList [JInt 1, JInt 2])]) = [(''a[0]'', JInt 1), (''a[1]'', JInt 2)] \<and>
   (\<forall>kvs. is_flat kvs \<longrightarrow>
      flatten (JDict kvs) = kvs \<and>
      flatten (JDict (flatten (JDict kvs))) = flatten (JDict kvs))"
proof (intro conjI allI impI)
  show "flatten (JDict [(''a'', JDict [(''b'', JInt 1)])]) = [(''a.b'', JInt 1)]"
    by (simp add: flatten_def)
  show "flatten (JDict [(''a'', JList [JInt 1, JInt 2])])
        = [(''a[0]'', JInt 1), (''a[1]'', JInt 2)]"
    by (simp add: flatten_def str_nat.simps digit_char_def)
next
  fix kvs :: "json dict"
  assume "is_flat kvs"
  then show "flatten (JDict kvs) = kvs" by (rule flatten_flat)
  show "flatten (JDict (flatten (JDict kvs))) = flatten (JDict kvs)"
    by (rule flatten_flatten)
qed

theorem flatten_examples_idempotent_witness:
  "is_flat [(''id'', JInt 7), (''phone'', JStr ''998901234567''), (''ok'', JBool True)] \<and>
   flatten (JDict [(''id'', JInt 7), (''phone'', JStr ''998901234567''), (''ok'', JBool True)])
     = [(''id'', JInt 7), (''phone'', JStr ''998901234567''), (''ok'', JBool True)]"
  using flatten_examples_idempotent
  by (simp add: is_flat_def)

section \<open>Properties of the CRM connector\<close>

subsection \<open>What each step sends and returns\<close>

lemma logger_fields [simp]:
  "exchanges (logger lv m st) = exchanges st"
  "log (logger lv m st) = log st @ [(lv, m)]"
  "stdout (logger lv m st) = stdout st"
  "sent (logger lv m st) = sent st"
  by (simp_all add: logger_def sent_def)

lemma http_send_simps [simp]:
  "fst (http_send srv req st) = srv (sent st) req"
  "exchanges (snd (http_send srv req st)) = exchanges st @ [(req, srv (sent st) req)]"
  by (simp_all add: http_send_def Let_def)

lemma sent_simps [simp]: "sent (st\<lparr>exchanges := xs\<rparr>) = map fst xs" "sent (st\<lparr>log := lg\<rparr>) = sent st"
  by (simp_all add: sent_def)

lemma crm_request_fields [simp]:
  "req_method (crm_request m a p) = m"
  "req_url (crm_request m a p) = normalize_url a"
  "req_json (crm_request POST a p) = Some (JDict p)"
  by (simp_all add: crm_request_def)

lemma is_kind_crm_request [simp]:
  "is_contact_create (crm_request m a p) \<longleftrightarrow> m = POST \<and> a = ''Contact''"
  "is_lead_create (crm_request m a p) \<longleftrightarrow> m = POST \<and> a = ''Lead''"
  "is_contact_query (crm_request m a p) \<longleftrightarrow> m = GET \<and> a = ''Contact''"
  by (auto simp: is_contact_create_def is_lead_create_def is_contact_query_def crm_request_def normalize_url_def)

lemma sent_append: "exchanges st' = exchanges st @ xs \<Longrightarrow> issued st st' = map fst xs"
  by (simp add: issued_def sent_def)

lemma request_exchanges:
  "exchanges (snd (request srv m a p st))
   = exchanges st @ [(crm_request m a p, srv (sent st) (crm_request m a p))]"
  by (simp add: request_def http_send_def Let_def sent_def logger_def split: outcome.splits)

lemma request_fst:
  "fst (request srv m a p st) =
     (case srv (sent st) (crm_request m a p) of
        ConnectionFailed msg \<Rightarrow> Inl (RequestException, msg)
      | Responded resp \<Rightarrow>
          if status_code resp \<noteq> 200 then
            Inl (EspoAPIError, ''Wrong request, status code '' @ str_nat (status_code resp)
                       @ '', reason: '' @ parse_reason resp)
          else if content resp = EmptyBody then Inl (EspoAPIError, ''Empty response content'')
          else Inr resp)"
  by (simp add: request_def http_send_def Let_def split: outcome.splits)

lemma request_failure:
  "http_failure (srv (sent st) (crm_request m a p)) \<Longrightarrow> \<exists>e. fst (request srv m a p st) = Inl e"
  by (cases "srv (sent st) (crm_request m a p)") (auto simp: request_fst)

lemma request_Inr:
  "fst (request srv m a p st) = Inr resp \<Longrightarrow>
   srv (sent st) (crm_request m a p) = Responded resp \<and> status_code resp = 200 \<and>
   content resp \<noteq> EmptyBody"
  by (cases "srv (sent st) (crm_request m a p)") (auto simp: request_fst split: if_splits)

lemma create_lead_exchanges:
  "exchanges (snd (create_lead srv now p st))
   = exchanges st @ [(crm_request POST ''Lead'' (dict_set p ''name'' (JStr (timestamped_name p now))),
                      srv (sent st) (crm_request POST ''Lead'' (dict_set p ''name'' (JStr (timestamped_name p now)))))]"
  using request_exchanges[of srv POST "''Lead''" "dict_set p ''name'' (JStr (timestamped_name p now))" st]
  by (auto simp: create_lead_def Let_def split: prod.splits sum.splits)

lemma create_contact_exchanges:
  "exchanges (snd (create_contact srv f l ph st))
   = exchanges st @ [(crm_request POST ''Contact'' (contact_payload f l ph),
                      srv (sent st) (crm_request POST ''Contact'' (contact_payload f l ph)))]"
  using request_exchanges[of srv POST "''Contact''" "contact_payload f l ph" st]
  by (auto simp: create_contact_def Let_def split: prod.splits sum.splits)

lemma after_query_exchanges:
  "exchanges (after_query srv ph st)
   = exchanges st @ [(crm_request GET ''Contact'' (contact_query ph),
                      srv (sent st) (crm_request GET ''Contact'' (contact_query ph)))]"
  by (simp add: after_query_def request_exchanges)

lemma sent_after_query:
  "sent (after_query srv ph st) = sent st @ [crm_request GET ''Contact'' (contact_query ph)]"
  by (simp add: sent_def after_query_exchanges)

lemma create_lead_fst:
  "fst (create_lead srv now p st) =
     (case fst (request srv POST ''Lead'' (dict_set p ''name'' (JStr (timestamped_name p now))) st) of
        Inl e \<Rightarrow> error_result e
      | Inr resp \<Rightarrow> (case response_json resp of
                       Inl e \<Rightarrow> error_result e
                     | Inr data \<Rightarrow> [(''status'', JStr ''success''), (''lead'', data)]))"
  by (auto simp: create_lead_def Let_def split: prod.splits sum.splits)

lemma create_contact_fst:
  "fst (create_contact srv f l ph st) =
     (case fst (request srv POST ''Contact'' (contact_payload f l ph) st) of
        Inl e \<Rightarrow> error_result e
      | Inr resp \<Rightarrow> (case response_json resp of
                       Inl e \<Rightarrow> error_result e
                     | Inr data \<Rightarrow> [(''status'', JStr ''success''), (''contact'', data)]))"
  by (auto simp: create_contact_def Let_def split: prod.splits sum.splits)

lemma reports_error_error_result [simp]: "reports_error (error_result e)"
  by (simp add: reports_error_def error_result_def)

lemma reports_error_not_success:
  "reports_error d \<Longrightarrow> map_of d ''status'' \<noteq> Some (JStr ''success'')"
  by (simp add: reports_error_def)

lemma create_lead_failure:
  "http_failure (srv (sent st) (crm_request POST ''Lead''
       (dict_set p ''name'' (JStr (timestamped_name p now))))) \<Longrightarrow>
   reports_error (fst (create_lead srv now p st))"
  using request_failure[of srv st POST "''Lead''" "dict_set p ''name'' (JStr (timestamped_name p now))"]
  by (auto simp: create_lead_fst)

lemma create_contact_cases:
  "reports_error (fst (create_contact srv f l ph st)) \<or>
   (\<exists>r2 contact. srv (sent st) (crm_request POST ''Contact'' (contact_payload f l ph)) = Responded r2 \<and>
      status_code r2 = 200 \<and> content r2 = JsonBody contact \<and>
      fst (create_contact srv f l ph st) = [(''status'', JStr ''success''), (''contact'', contact)])"
proof (cases "fst (request srv POST ''Contact'' (contact_payload f l ph) st)")
  case (Inl e)
  then show ?thesis by (simp add: create_contact_fst)
next
  case (Inr resp)
  from request_Inr[OF Inr] show ?thesis
    by (cases "content resp") (auto simp: create_contact_fst Inr response_json_def)
qed

text \<open>
  After a query that came back with status 200 and a JSON object, \<open>get_contact\<close> is its
  second half.
\<close>

lemma get_contact_after_query:
  assumes "srv (sent st) (crm_request GET ''Contact'' (contact_query ph)) = Responded r1"
    and "status_code r1 = 200" and "content r1 = JsonBody (JDict data)"
  shows "get_contact srv now f l ph st =
     (if py_eq_int (dict_get data ''total'' (JInt 0)) 0 then
        (case create_contact srv f l ph (after_query srv ph st) of (contact_result, st3) \<Rightarrow>
           if map_of contact_result ''status'' \<noteq> Some (JStr ''success'') then (Inr contact_result, st3)
           else (case create_lead srv now (lead_payload f l ph) st3 of (lead_result, st4) \<Rightarrow>
                  (Inr [(''status'', JStr ''created''), (''contact'', JDict contact_result),
                        (''lead'', JDict lead_result)], st4)))
      else (case first_of_list data of
              Inl e \<Rightarrow> (Inl e, after_query srv ph st)
            | Inr contact \<Rightarrow>
                (case create_lead srv now (lead_payload f l ph) (after_query srv ph st) of
                   (lead_result, st3) \<Rightarrow>
                     (Inr [(''status'', JStr ''success''), (''contact'', contact),
                           (''lead'', JDict lead_result)], st3))))"
proof -
  obtain r st1 where req: "request srv GET ''Contact'' (contact_query ph) st = (r, st1)"
    by (cases "request srv GET ''Contact'' (contact_query ph) st")
  have "fst (request srv GET ''Contact'' (contact_query ph) st) = Inr r1"
    using assms by (simp add: request_fst)
  with req have r: "r = Inr r1" by simp
  have js: "response_json r1 = Inr (JDict data)"
    using assms(3) by (simp add: response_json_def)
  have aq: "after_query srv ph st = logger INFO ''Found contact(s) for phone'' st1"
    using req by (simp add: after_query_def)
  show ?thesis
    unfolding get_contact_def Let_def req r aq
    by (simp add: js split: prod.splits sum.splits)
qed

text \<open>The three ways the contact query can go.\<close>

lemma get_contact_query_cases:
  fixes srv st ph
  defines "o1 \<equiv> srv (sent st) (crm_request GET ''Contact'' (contact_query ph))"
  shows "(\<exists>e st'. get_contact srv now f l ph st = (Inr (error_result e), st')) \<or>
         (\<not> http_failure o1 \<and>
          (\<exists>e st'. get_contact srv now f l ph st = (Inl e, st') \<and>
             exchanges st' = exchanges st @ [(crm_request GET ''Contact'' (contact_query ph), o1)])) \<or>
         (\<exists>r1 data. o1 = Responded r1 \<and> status_code r1 = 200 \<and> content r1 = JsonBody (JDict data))"
proof -
  obtain r st1 where req: "request srv GET ''Contact'' (contact_query ph) st = (r, st1)"
    by (cases "request srv GET ''Contact'' (contact_query ph) st")
  have ex1: "exchanges st1 = exchanges st @ [(crm_request GET ''Contact'' (contact_query ph), o1)]"
    using request_exchanges[of srv GET "''Contact''" "contact_query ph" st] req
    by (simp add: o1_def)
  show ?thesis
  proof (cases r)
    case (Inl e)
    then have "get_contact srv now f l ph st =
                 (Inr (error_result e), logger ERROR ''Error fetching contact'' st1)"
      by (simp add: get_contact_def req)
    then show ?thesis by blast
  next
    case (Inr resp)
    with req have "fst (request srv GET ''Contact'' (contact_query ph) st) = Inr resp" by simp
    from request_Inr[OF this] have o1: "o1 = Responded resp" and ok: "status_code resp = 200"
      and ne: "content resp \<noteq> EmptyBody" by (simp_all add: o1_def)
    show ?thesis
    proof (cases "content resp")
      case EmptyBody
      with ne show ?thesis by simp
    next
      case (Malformed msg)
      then have "get_contact srv now f l ph st =
                   (Inr (error_result (JSONDecodeError, msg)),
                    logger ERROR ''Error fetching contact'' st1)"
        by (simp add: get_contact_def req Inr response_json_def)
      then show ?thesis by blast
    next
      case (JsonBody j)
      show ?thesis
      proof (cases "\<exists>data. j = JDict data")
        case True
        with o1 ok JsonBody show ?thesis by auto
      next
        case False
        then have "\<exists>e. get_contact srv now f l ph st = (Inl e, st1)"
          by (cases j) (simp_all add: get_contact_def req Inr response_json_def JsonBody)
        moreover have "\<not> http_failure o1" using o1 ok ne by simp
        ultimately show ?thesis using ex1 by blast
      qed
    qed
  qed
qed

lemma get_contact_query_failed:
  assumes "fst (request srv GET ''Contact'' (contact_query ph) st) = Inl e"
  shows "\<exists>st'. get_contact srv now f l ph st = (Inr (error_result e), st') \<and>
           exchanges st' = exchanges st @
             [(crm_request GET ''Contact'' (contact_query ph),
               srv (sent st) (crm_request GET ''Contact'' (contact_query ph)))]"
proof -
  obtain r st1 where req: "request srv GET ''Contact'' (contact_query ph) st = (r, st1)"
    by (cases "request srv GET ''Contact'' (contact_query ph) st")
  with assms have r: "r = Inl e" by simp
  have "exchanges st1 = exchanges st @
          [(crm_request GET ''Contact'' (contact_query ph),
            srv (sent st) (crm_request GET ''Contact'' (contact_query ph)))]"
    using request_exchanges[of srv GET "''Contact''" "contact_query ph" st] req by simp
  moreover have "get_contact srv now f l ph st =
      (Inr (error_result e), logger ERROR ''Error fetching contact'' st1)"
    by (simp add: get_contact_def req r)
  ultimately show ?thesis by simp
qed

text \<open>Where a failed exchange shows in what the workflow returns.\<close>

lemma get_contact_failure_located:
  assumes "get_contact srv now f l ph st = (r, st')"
    and "(rq, out) \<in> set (exchanged st st')"
    and "http_failure out"
  shows "\<exists>cr. r = Inr cr \<and>
           (if is_lead_create rq
            then (map_of cr ''status'' = Some (JStr ''created'') \<or>
                  map_of cr ''status'' = Some (JStr ''success'')) \<and>
                 (case map_of cr ''lead'' of Some (JDict lr) \<Rightarrow> reports_error lr | _ \<Rightarrow> False)
            else (is_contact_query rq \<or> is_contact_create rq) \<and> reports_error cr)"
proof -
  let ?q = "crm_request GET ''Contact'' (contact_query ph)"
  let ?o1 = "srv (sent st) ?q"
  let ?p = "lead_payload f l ph"
  let ?lq = "crm_request POST ''Lead'' (dict_set ?p ''name'' (JStr (timestamped_name ?p now)))"
  let ?cq = "crm_request POST ''Contact'' (contact_payload f l ph)"
  let ?aq = "after_query srv ph st"
  show ?thesis
  proof (cases "fst (request srv GET ''Contact'' (contact_query ph) st)")
    case (Inl e)
    from get_contact_query_failed[OF Inl, of now f l] assms(1)
    have r: "r = Inr (error_result e)" and ex: "exchanged st st' = [(?q, ?o1)]"
      by (auto simp: exchanged_def)
    from ex assms(2) have "rq = ?q" by simp
    with r show ?thesis by simp
  next
    case (Inr resp)
    from request_Inr[OF Inr] have o1: "?o1 = Responded resp" "status_code resp = 200"
      "content resp \<noteq> EmptyBody" by simp_all
    then have ok1: "\<not> http_failure ?o1" by simp
    obtain rr st1 where req: "request srv GET ''Contact'' (contact_query ph) st = (rr, st1)"
      by (cases "request srv GET ''Contact'' (contact_query ph) st")
    with Inr have rr: "rr = Inr resp" by simp
    have ex1: "exchanges st1 = exchanges st @ [(?q, ?o1)]"
      using request_exchanges[of srv GET "''Contact''" "contact_query ph" st] req by simp
    consider (unparsed) msg where "content resp = Malformed msg"
      | (other) j where "content resp = JsonBody j" "\<forall>data. j \<noteq> JDict data"
      | (answered) data where "content resp = JsonBody (JDict data)"
      using o1(3) by (cases "content resp") auto
    then show ?thesis
    proof cases
      case unparsed
      then have "get_contact srv now f l ph st =
              (Inr (error_result (JSONDecodeError, msg)), logger ERROR ''Error fetching contact'' st1)"
        by (simp add: get_contact_def req rr response_json_def)
      with assms(1) ex1 have "exchanged st st' = [(?q, ?o1)]"
        by (auto simp: exchanged_def)
      with assms(2,3) ok1 show ?thesis by simp
    next
      case other
      then have "\<exists>e. get_contact srv now f l ph st = (Inl e, st1)"
        by (cases j) (simp_all add: get_contact_def req rr response_json_def)
      with assms(1) ex1 have "exchanged st st' = [(?q, ?o1)]"
        by (auto simp: exchanged_def)
      with assms(2,3) ok1 show ?thesis by simp
    next
      case answered
      note gc = get_contact_after_query[of srv st ph resp data now f l, OF o1(1,2) answered]
      show ?thesis
      proof (cases "py_eq_int (dict_get data ''total'' (JInt 0)) 0")
        case True
        obtain cr st3 where cc: "create_contact srv f l ph ?aq = (cr, st3)"
          by (cases "create_contact srv f l ph ?aq")
        have ex3: "exchanges st3 = exchanges st @ [(?q, ?o1), (?cq, srv (sent ?aq) ?cq)]"
          using create_contact_exchanges[of srv f l ph ?aq] cc
          by (simp add: after_query_exchanges)
        from create_contact_cases[of srv f l ph ?aq] cc
        consider (cerr) "reports_error cr"
          | (cok) "\<not> http_failure (srv (sent ?aq) ?cq)"
              "map_of cr ''status'' = Some (JStr ''success'')"
          by auto
        then show ?thesis
        proof cases
          case cerr
          then have "get_contact srv now f l ph st = (Inr cr, st3)"
            using gc True cc by (simp add: reports_error_not_success)
          with assms(1) ex3 have r: "r = Inr cr"
            and ex: "exchanged st st' = [(?q, ?o1), (?cq, srv (sent ?aq) ?cq)]"
            by (auto simp: exchanged_def)
          from ex assms(2) have "rq = ?q \<or> rq = ?cq" by auto
          with r cerr show ?thesis by auto
        next
          case cok
          obtain lr st4 where cl: "create_lead srv now ?p st3 = (lr, st4)"
            by (cases "create_lead srv now ?p st3")
          have g: "get_contact srv now f l ph st =
                     (Inr [(''status'', JStr ''created''), (''contact'', JDict cr),
                           (''lead'', JDict lr)], st4)"
            using gc True cc cok(2) cl by simp
          have "exchanges st4 = exchanges st @
                  [(?q, ?o1), (?cq, srv (sent ?aq) ?cq), (?lq, srv (sent st3) ?lq)]"
            using create_lead_exchanges[of srv now ?p st3] cl ex3 by simp
          with g assms(1) have ex:
            "exchanged st st' = [(?q, ?o1), (?cq, srv (sent ?aq) ?cq), (?lq, srv (sent st3) ?lq)]"
            by (auto simp: exchanged_def)
          with assms(2,3) ok1 cok(1) have rq: "rq = ?lq" and "http_failure (srv (sent st3) ?lq)"
            by auto
          from create_lead_failure[of srv st3 ?p now, OF this(2)] cl have "reports_error lr"
            by simp
          with g assms(1) rq show ?thesis by auto
        qed
      next
        case False
        show ?thesis
        proof (cases "first_of_list data")
          case (Inl e)
          then have "get_contact srv now f l ph st = (Inl e, ?aq)"
            using gc False by simp
          with assms(1) have "exchanged st st' = [(?q, ?o1)]"
            by (auto simp: exchanged_def after_query_exchanges)
          with assms(2,3) ok1 show ?thesis by simp
        next
          case (Inr c)
          obtain lr st3 where cl: "create_lead srv now ?p ?aq = (lr, st3)"
            by (cases "create_lead srv now ?p ?aq")
          have g: "get_contact srv now f l ph st =
                     (Inr [(''status'', JStr ''success''), (''contact'', c),
                           (''lead'', JDict lr)], st3)"
            using gc False Inr cl by simp
          have "exchanges st3 = exchanges st @ [(?q, ?o1), (?lq, srv (sent ?aq) ?lq)]"
            using create_lead_exchanges[of srv now ?p ?aq] cl
            by (simp add: after_query_exchanges)
          with g assms(1) have "exchanged st st' = [(?q, ?o1), (?lq, srv (sent ?aq) ?lq)]"
            by (auto simp: exchanged_def)
          with assms(2,3) ok1 have rq: "rq = ?lq" and "http_failure (srv (sent ?aq) ?lq)"
            by auto
          from create_lead_failure[of srv ?aq ?p now, OF this(2)] cl have "reports_error lr"
            by simp
          with g assms(1) rq show ?thesis by auto
        qed
      qed
    qed
  qed
qed


lemmas run_defs = push_to_crm_def get_contact_def create_contact_def create_lead_def request_def
  http_send_def logger_def scripted_def ok_json_def status_only_def no_contacts_def two_contacts_def
  io0_def ann_def sent_def dict_get_def Let_def response_json_def crm_request_def contact_query_def
  contact_payload_def lead_payload_def error_result_def parse_reason_def str_nat.simps digit_char_def
  issued_def replies_def

subsection \<open>Claim C1\<close>

text \<open>
  Claim C1, as stated: whenever a CRM HTTP sub-step fails (a status other than 200, or an
  empty body), \<open>push_to_crm\<close> returns a mapping whose top-level \<open>status\<close> is \<open>"error"\<close>. It does
  not: when the CRM answers the contact query with status 500, the step's own handler turns
  the failure into an error mapping, and \<open>push_to_crm\<close> returns it as \<open>crm_result\<close> under
  the top-level status \<open>"pushed"\<close>.
\<close>

theorem push_to_crm_top_level_status_counterexample:
  "list_ex http_failure (replies io0 (snd (push_to_crm (scripted [status_only 500]) noon ann io0))) \<and>
   fst (push_to_crm (scripted [status_only 500]) noon ann io0) =
     [(''status'', JStr ''pushed''),
      (''crm_result'',
       JDict [(''status'', JStr ''error''),
              (''message'', JStr ''Wrong request, status code 500, reason: Unknown Error'')])] \<and>
   map_of (fst (push_to_crm (scripted [status_only 500]) noon ann io0)) ''status''
     \<noteq> Some (JStr ''error'')"
  by (simp add: run_defs)

text \<open>
  Claim C1, amended: \<open>push_to_crm\<close> always returns a mapping (nothing is raised to the
  caller), whose status is \<open>"pushed"\<close> or which is \<open>{status: "error", message}\<close>; and
  for every CRM HTTP sub-step that fails (a status other than 200, or an empty body), the
  top-level status is \<open>"pushed"\<close> and the \<open>{status: "error", message}\<close> mapping sits where
  that step reports: when the contact query or the contact-create failed it is the
  \<open>crm_result\<close>; when the lead-create failed the \<open>crm_result\<close> has status \<open>"created"\<close>
  or \<open>"success"\<close> and the error mapping is its \<open>lead\<close>.
\<close>

theorem push_to_crm_failure_is_nested:
  "(map_of (fst (push_to_crm srv now params st)) ''status'' = Some (JStr ''pushed'') \<or>
    reports_error (fst (push_to_crm srv now params st))) \<and>
   (\<forall>x \<in> set (exchanged st (snd (push_to_crm srv now params st))).
      http_failure (snd x) \<longrightarrow> failure_reported (fst x) (fst (push_to_crm srv now params st)))"
proof -
  define f where "f = dict_get params ''firstName'' JNull"
  define l where "l = dict_get params ''lastName'' JNull"
  define ph where "ph = dict_get params ''phoneNumber'' JNull"
  define st1 where "st1 = logger INFO ''Pushing lead to CRM'' st"
  obtain r st2 where gc: "get_contact srv now f l ph st1 = (r, st2)"
    by (cases "get_contact srv now f l ph st1")
  have p: "push_to_crm srv now params st =
             (case r of
                Inr result \<Rightarrow> ([(''status'', JStr ''pushed''), (''crm_result'', JDict result)],
                               logger INFO ''CRM push result'' st2)
              | Inl e \<Rightarrow> (error_result e, logger ERROR ''Error pushing to CRM'' st2))"
    unfolding push_to_crm_def Let_def
    using gc by (simp add: f_def l_def ph_def st1_def split: sum.splits)
  have first: "map_of (fst (push_to_crm srv now params st)) ''status'' = Some (JStr ''pushed'') \<or>
               reports_error (fst (push_to_crm srv now params st))"
    by (cases r) (simp_all add: p)
  have ex: "exchanged st (snd (push_to_crm srv now params st)) = exchanged st1 st2"
    by (cases r) (simp_all add: p exchanged_def st1_def)
  have second: "failure_reported rq (fst (push_to_crm srv now params st))"
    if "(rq, out) \<in> set (exchanged st (snd (push_to_crm srv now params st)))"
      and "http_failure out" for rq out
  proof -
    from that(1) ex have "(rq, out) \<in> set (exchanged st1 st2)" by simp
    from get_contact_failure_located[OF gc this that(2)] obtain cr where
      "r = Inr cr" and
      "if is_lead_create rq
       then (map_of cr ''status'' = Some (JStr ''created'') \<or>
             map_of cr ''status'' = Some (JStr ''success'')) \<and>
            (case map_of cr ''lead'' of Some (JDict lr) \<Rightarrow> reports_error lr | _ \<Rightarrow> False)
       else (is_contact_query rq \<or> is_contact_create rq) \<and> reports_error cr"
      by blast
    then show ?thesis
      by (simp add: p failure_reported_def error_as_lead_def error_as_crm_result_def)
  qed
  from first second show ?thesis by auto
qed

theorem push_to_crm_failure_is_nested_witness:
  "http_failure (status_only 503) \<and>
   error_as_lead (fst (push_to_crm (scripted [ok_json two_contacts, status_only 503]) noon ann io0)) \<and>
   \<not> error_as_crm_result
       (fst (push_to_crm (scripted [ok_json two_contacts, status_only 503]) noon ann io0))"
proof -
  let ?srv = "scripted [ok_json two_contacts, status_only 503]"
  let ?p = "lead_payload (JStr ''Ann'') (JStr ''Lee'') (JStr ''+998901234567'')"
  let ?lq = "crm_request POST ''Lead'' (dict_set ?p ''name'' (JStr (timestamped_name ?p noon)))"
  have m: "(?lq, status_only 503) \<in> set (exchanged io0 (snd (push_to_crm ?srv noon ann io0)))"
    by (simp add: run_defs first_of_list_def exchanged_def)
  have f: "http_failure (snd (?lq, status_only 503))"
    by (simp add: status_only_def)
  have "failure_reported (fst (?lq, status_only 503)) (fst (push_to_crm ?srv noon ann io0))"
    using push_to_crm_failure_is_nested[of ?srv noon ann io0] m f by blast
  then have a: "error_as_lead (fst (push_to_crm ?srv noon ann io0))"
    by (simp add: failure_reported_def)
  have b: "\<not> error_as_crm_result (fst (push_to_crm ?srv noon ann io0))"
    by (simp add: run_defs first_of_list_def error_as_crm_result_def reports_error_def)
  from a b f show ?thesis by simp
qed

subsection \<open>Claim C3\<close>

text \<open>
  Claim C3, as stated: whenever the contact query succeeds and reports total 0, exactly one
  contact-create and exactly one lead-create request are issued and the result status is
  \<open>"created"\<close>. It fails when the contact-create does not succeed: the guard after
  \<open>create_contact\<close> returns its error result at once, no lead-create request is issued
  and the workflow result has status \<open>"error"\<close>.
\<close>

theorem push_zero_match_counterexample:
  "replies io0 (snd (push_to_crm (scripted [ok_json no_contacts, status_only 500]) noon ann io0))
     = [ok_json no_contacts, status_only 500] \<and>
   map req_method
     (issued io0 (snd (push_to_crm (scripted [ok_json no_contacts, status_only 500]) noon ann io0)))
     = [GET, POST] \<and>
   filter is_lead_create
     (issued io0 (snd (push_to_crm (scripted [ok_json no_contacts, status_only 500]) noon ann io0)))
     = [] \<and>
   fst (push_to_crm (scripted [ok_json no_contacts, status_only 500]) noon ann io0) =
     [(''status'', JStr ''pushed''),
      (''crm_result'',
       JDict [(''status'', JStr ''error''),
              (''message'', JStr ''Wrong request, status code 500, reason: Unknown Error'')])]"
  by (simp add: run_defs is_lead_create_def normalize_url_def)

text \<open>
  Claim C3, amended: whenever the contact query succeeds and reports total 0 and the
  contact-create request succeeds (status 200 with a JSON body), exactly one contact-create
  and exactly one lead-create request are issued (after the one query), and the workflow
  result has status \<open>"created"\<close> and carries the contact-creation and lead-creation outcomes;
  \<open>push_to_crm\<close> returns it as \<open>crm_result\<close> under the top-level status \<open>"pushed"\<close>.
\<close>

theorem push_zero_match_creates_both:
  fixes params :: "json dict"
  defines "f \<equiv> dict_get params ''firstName'' JNull"
    and "l \<equiv> dict_get params ''lastName'' JNull"
    and "ph \<equiv> dict_get params ''phoneNumber'' JNull"
  assumes "srv (sent st) (crm_request GET ''Contact'' (contact_query ph)) = Responded r1"
    and "status_code r1 = 200"
    and "content r1 = JsonBody (JDict data)"
    and "py_eq_int (dict_get data ''total'' (JInt 0)) 0"
    and "srv (sent st @ [crm_request GET ''Contact'' (contact_query ph)])
             (crm_request POST ''Contact'' (contact_payload f l ph)) = Responded r2"
    and "status_code r2 = 200"
    and "content r2 = JsonBody contact"
  shows "(\<exists>lead_result.
            fst (push_to_crm srv now params st) =
              [(''status'', JStr ''pushed''),
               (''crm_result'',
                JDict [(''status'', JStr ''created''),
                       (''contact'', JDict [(''status'', JStr ''success''), (''contact'', contact)]),
                       (''lead'', JDict lead_result)])]) \<and>
         map req_method (issued st (snd (push_to_crm srv now params st))) = [GET, POST, POST] \<and>
         length (filter is_contact_create (issued st (snd (push_to_crm srv now params st)))) = 1 \<and>
         length (filter is_lead_create (issued st (snd (push_to_crm srv now params st)))) = 1"
proof -
  define st1 where "st1 = logger INFO ''Pushing lead to CRM'' st"
  let ?q = "crm_request GET ''Contact'' (contact_query ph)"
  let ?cq = "crm_request POST ''Contact'' (contact_payload f l ph)"
  let ?p = "lead_payload f l ph"
  let ?lq = "crm_request POST ''Lead'' (dict_set ?p ''name'' (JStr (timestamped_name ?p now)))"
  let ?aq = "after_query srv ph st1"
  let ?cr = "[(''status'', JStr ''success''), (''contact'', contact)]"
  have q: "srv (sent st1) ?q = Responded r1"
    using assms(4) by (simp add: st1_def)
  have c: "srv (sent ?aq) ?cq = Responded r2"
    using assms(8) by (simp add: sent_after_query st1_def)
  obtain cr st3 where cc: "create_contact srv f l ph ?aq = (cr, st3)"
    by (cases "create_contact srv f l ph ?aq")
  have "fst (create_contact srv f l ph ?aq) = ?cr"
    using c assms(9,10) by (simp add: create_contact_fst request_fst response_json_def)
  with cc have cr: "cr = ?cr" by simp
  have ex3: "exchanges st3 = exchanges st @ [(?q, srv (sent st1) ?q), (?cq, srv (sent ?aq) ?cq)]"
    using create_contact_exchanges[of srv f l ph ?aq] cc
    by (simp add: after_query_exchanges st1_def)
  obtain lr st4 where cl: "create_lead srv now ?p st3 = (lr, st4)"
    by (cases "create_lead srv now ?p st3")
  have ex4: "exchanges st4 = exchanges st @
               [(?q, srv (sent st1) ?q), (?cq, srv (sent ?aq) ?cq), (?lq, srv (sent st3) ?lq)]"
    using create_lead_exchanges[of srv now ?p st3] cl ex3 by simp
  have gc: "get_contact srv now f l ph st1 =
              (Inr [(''status'', JStr ''created''), (''contact'', JDict ?cr), (''lead'', JDict lr)], st4)"
    using get_contact_after_query[of srv st1 ph r1 data now f l, OF q assms(5,6)] assms(7)
    by (simp add: cc cr cl)
  have p: "push_to_crm srv now params st =
             ([(''status'', JStr ''pushed''),
               (''crm_result'', JDict [(''status'', JStr ''created''), (''contact'', JDict ?cr),
                                       (''lead'', JDict lr)])],
              logger INFO ''CRM push result'' st4)"
    unfolding push_to_crm_def Let_def
    using gc by (simp add: f_def l_def ph_def st1_def)
  have "issued st (logger INFO ''CRM push result'' st4) = [?q, ?cq, ?lq]"
    using ex4 by (simp add: issued_def sent_def)
  then show ?thesis
    by (simp add: p)
qed

theorem push_zero_match_creates_both_witness:
  "(\<exists>lead_result.
      fst (push_to_crm (scripted [ok_json no_contacts, ok_json (JDict [(''id'', JStr ''c9'')]),
                                  ok_json (JDict [(''id'', JStr ''l1'')])]) noon ann io0) =
        [(''status'', JStr ''pushed''),
         (''crm_result'',
          JDict [(''status'', JStr ''created''),
                 (''contact'', JDict [(''status'', JStr ''success''),
                                      (''contact'', JDict [(''id'', JStr ''c9'')])]),
                 (''lead'', JDict lead_result)])]) \<and>
   length (filter is_lead_create
     (issued io0 (snd (push_to_crm (scripted [ok_json no_contacts, ok_json (JDict [(''id'', JStr ''c9'')]),
                                  ok_json (JDict [(''id'', JStr ''l1'')])]) noon ann io0)))) = 1"
proof -
  let ?srv = "scripted [ok_json no_contacts, ok_json (JDict [(''id'', JStr ''c9'')]),
                        ok_json (JDict [(''id'', JStr ''l1'')])]"
  let ?r = "\<lparr>status_code = 200, status_reason = None, content = JsonBody no_contacts\<rparr>"
  let ?r2 = "\<lparr>status_code = 200, status_reason = None,
              content = JsonBody (JDict [(''id'', JStr ''c9'')])\<rparr>"
  have h1: "?srv (sent io0) (crm_request GET ''Contact''
               (contact_query (dict_get ann ''phoneNumber'' JNull))) = Responded ?r"
    by (simp add: scripted_def ok_json_def io0_def sent_def)
  have h2: "status_code ?r = 200" by simp
  have h3: "content ?r = JsonBody (JDict [(''total'', JInt 0), (''list'', JList [])])"
    by (simp add: no_contacts_def)
  have h4: "py_eq_int (dict_get [(''total'', JInt 0), (''list'', JList [])] ''total'' (JInt 0)) 0"
    by (simp add: dict_get_def)
  have h5: "?srv (sent io0 @ [crm_request GET ''Contact''
                (contact_query (dict_get ann ''phoneNumber'' JNull))])
              (crm_request POST ''Contact''
                (contact_payload (dict_get ann ''firstName'' JNull) (dict_get ann ''lastName'' JNull)
                   (dict_get ann ''phoneNumber'' JNull))) = Responded ?r2"
    by (simp add: scripted_def ok_json_def io0_def sent_def)
  have h6: "status_code ?r2 = 200" by simp
  have h7: "content ?r2 = JsonBody (JDict [(''id'', JStr ''c9'')])" by simp
  from push_zero_match_creates_both[where srv = ?srv and st = io0 and params = ann and now = noon,
         OF h1 h2 h3 h4 h5 h6 h7]
  show ?thesis by simp
qed

subsection \<open>Claim C4\<close>

text \<open>
  Claim C4, as stated: for a \<open>push_to_crm\<close> invocation whose phone number matches one or
  more contacts, the result status is \<open>"success"\<close>. The status of what \<open>push_to_crm\<close>
  returns is \<open>"pushed"\<close>; \<open>"success"\<close> is the status of the workflow result it carries as
  \<open>crm_result\<close>.
\<close>

theorem push_existing_contact_status_counterexample:
  "replies io0 (snd (push_to_crm (scripted [ok_json two_contacts, ok_json (JDict [(''id'', JStr ''l1'')])])
                       noon ann io0))
     = [ok_json two_contacts, ok_json (JDict [(''id'', JStr ''l1'')])] \<and>
   fst (push_to_crm (scripted [ok_json two_contacts, ok_json (JDict [(''id'', JStr ''l1'')])])
          noon ann io0) =
     [(''status'', JStr ''pushed''),
      (''crm_result'',
       JDict [(''status'', JStr ''success''), (''contact'', JDict [(''id'', JStr ''c1'')]),
              (''lead'', JDict [(''status'', JStr ''success''),
                                (''lead'', JDict [(''id'', JStr ''l1'')])])])] \<and>
   map_of (fst (push_to_crm (scripted [ok_json two_contacts, ok_json (JDict [(''id'', JStr ''l1'')])])
                  noon ann io0)) ''status'' \<noteq> Some (JStr ''success'')"
  by (simp add: run_defs first_of_list_def)

text \<open>
  Claim C4, amended: whenever the contact query succeeds and reports one or more matches (a
  total other than 0 and a non-empty list), the only requests issued are the query and one
  lead-create: no contact-create, no update. The workflow result has status \<open>"success"\<close>
  and carries the first contact of the list as it came, with the lead-creation outcome;
  \<open>push_to_crm\<close> returns it as \<open>crm_result\<close> under the top-level status \<open>"pushed"\<close>.
\<close>

theorem push_existing_contact:
  assumes "srv (sent st) (crm_request GET ''Contact''
                 (contact_query (dict_get params ''phoneNumber'' JNull))) = Responded r1"
    and "status_code r1 = 200"
    and "content r1 = JsonBody (JDict data)"
    and "\<not> py_eq_int (dict_get data ''total'' (JInt 0)) 0"
    and "map_of data ''list'' = Some (JList (c # cs))"
  shows "(\<exists>lead_result.
            fst (push_to_crm srv now params st) =
              [(''status'', JStr ''pushed''),
               (''crm_result'', JDict [(''status'', JStr ''success''), (''contact'', c),
                                       (''lead'', JDict lead_result)])]) \<and>
         map req_method (issued st (snd (push_to_crm srv now params st))) = [GET, POST] \<and>
         filter is_contact_create (issued st (snd (push_to_crm srv now params st))) = [] \<and>
         length (filter is_lead_create (issued st (snd (push_to_crm srv now params st)))) = 1"
proof -
  define f where "f = dict_get params ''firstName'' JNull"
  define l where "l = dict_get params ''lastName'' JNull"
  define ph where "ph = dict_get params ''phoneNumber'' JNull"
  define st1 where "st1 = logger INFO ''Pushing lead to CRM'' st"
  have q: "srv (sent st1) (crm_request GET ''Contact'' (contact_query ph)) = Responded r1"
    using assms(1) by (simp add: st1_def ph_def)
  have fl: "first_of_list data = Inr c"
    using assms(5) by (simp add: first_of_list_def)
  obtain lead_result st3 where
    cl: "create_lead srv now (lead_payload f l ph) (after_query srv ph st1) = (lead_result, st3)"
    by (cases "create_lead srv now (lead_payload f l ph) (after_query srv ph st1)")
  have gc: "get_contact srv now f l ph st1 =
              (Inr [(''status'', JStr ''success''), (''contact'', c), (''lead'', JDict lead_result)], st3)"
    using get_contact_after_query[of srv st1 ph r1 data now f l, OF q assms(2,3)] assms(4)
    by (simp add: fl cl)
  have p: "push_to_crm srv now params st =
             ([(''status'', JStr ''pushed''),
               (''crm_result'', JDict [(''status'', JStr ''success''), (''contact'', c),
                                       (''lead'', JDict lead_result)])],
              logger INFO ''CRM push result'' st3)"
    unfolding push_to_crm_def Let_def
    using gc by (simp add: f_def l_def ph_def st1_def)
  have "exchanges st3 = exchanges (after_query srv ph st1) @
          [(crm_request POST ''Lead'' (dict_set (lead_payload f l ph) ''name''
               (JStr (timestamped_name (lead_payload f l ph) now))),
            srv (sent (after_query srv ph st1)) (crm_request POST ''Lead''
               (dict_set (lead_payload f l ph) ''name''
               (JStr (timestamped_name (lead_payload f l ph) now)))))]"
    using create_lead_exchanges[of srv now "lead_payload f l ph" "after_query srv ph st1"]
    by (simp add: cl)
  then have ex: "\<exists>o1 o2. exchanges (logger INFO ''CRM push result'' st3) = exchanges st @
          [(crm_request GET ''Contact'' (contact_query ph), o1),
           (crm_request POST ''Lead'' (dict_set (lead_payload f l ph) ''name''
               (JStr (timestamped_name (lead_payload f l ph) now))), o2)]"
    by (simp add: after_query_exchanges st1_def)
  then have "issued st (logger INFO ''CRM push result'' st3) =
          [crm_request GET ''Contact'' (contact_query ph),
           crm_request POST ''Lead'' (dict_set (lead_payload f l ph) ''name''
               (JStr (timestamped_name (lead_payload f l ph) now)))]"
    using sent_append by fastforce
  then show ?thesis
    by (simp add: p)
qed

theorem push_existing_contact_witness:
  "(\<exists>lead_result.
      fst (push_to_crm (scripted [ok_json two_contacts, ok_json (JDict [(''id'', JStr ''l1'')])])
             noon ann io0) =
        [(''status'', JStr ''pushed''),
         (''crm_result'',
          JDict [(''status'', JStr ''success''), (''contact'', JDict [(''id'', JStr ''c1'')]),
                 (''lead'', JDict lead_result)])]) \<and>
   filter is_contact_create
     (issued io0 (snd (push_to_crm (scripted [ok_json two_contacts, ok_json (JDict [(''id'', JStr ''l1'')])])
             noon ann io0))) = [] \<and>
   length (filter is_lead_create
     (issued io0 (snd (push_to_crm (scripted [ok_json two_contacts, ok_json (JDict [(''id'', JStr ''l1'')])])
             noon ann io0)))) = 1"
proof -
  let ?srv = "scripted [ok_json two_contacts, ok_json (JDict [(''id'', JStr ''l1'')])]"
  let ?r = "\<lparr>status_code = 200, status_reason = None, content = JsonBody two_contacts\<rparr>"
  let ?list = "[JDict [(''id'', JStr ''c1'')], JDict [(''id'', JStr ''c2'')]]"
  let ?data = "[(''total'', JInt 2), (''list'', JList ?list)]"
  have h1: "?srv (sent io0) (crm_request GET ''Contact''
               (contact_query (dict_get ann ''phoneNumber'' JNull))) = Responded ?r"
    by (simp add: scripted_def ok_json_def io0_def sent_def)
  have h2: "status_code ?r = 200" by simp
  have h3: "content ?r = JsonBody (JDict ?data)"
    by (simp add: two_contacts_def)
  have h4: "\<not> py_eq_int (dict_get ?data ''total'' (JInt 0)) 0"
    by (simp add: dict_get_def)
  have h5: "map_of ?data ''list'' = Some (JList (JDict [(''id'', JStr ''c1'')] # [JDict [(''id'', JStr ''c2'')]]))"
    by simp
  from push_existing_contact[where srv = ?srv and st = io0 and params = ann and now = noon,
         OF h1 h2 h3 h4 h5]
  show ?thesis by simp
qed

subsection \<open>Claim C10\<close>

text \<open>
  Claim C10. In the zero-match path (the query succeeds and reports total 0), if
  \<open>create_contact\<close> does not return status \<open>"success"\<close>, the workflow returns that very
  result, an error mapping, in the state \<open>create_contact\<close> left: no lead-create request is
  issued.
\<close>

theorem contact_failure_skips_lead:
  assumes "srv (sent st) (crm_request GET ''Contact'' (contact_query ph)) = Responded r1"
    and "status_code r1 = 200"
    and "content r1 = JsonBody (JDict data)"
    and "py_eq_int (dict_get data ''total'' (JInt 0)) 0"
    and "create_contact srv f l ph (after_query srv ph st) = (contact_result, st3)"
    and "map_of contact_result ''status'' \<noteq> Some (JStr ''success'')"
  shows "get_contact srv now f l ph st = (Inr contact_result, st3) \<and>
         reports_error contact_result \<and>
         filter is_lead_create (issued st st3) = []"
proof -
  let ?q = "crm_request GET ''Contact'' (contact_query ph)"
  let ?cq = "crm_request POST ''Contact'' (contact_payload f l ph)"
  let ?aq = "after_query srv ph st"
  have gc: "get_contact srv now f l ph st = (Inr contact_result, st3)"
    using get_contact_after_query[of srv st ph r1 data now f l, OF assms(1,2,3)] assms(4,5,6)
    by simp
  have err: "reports_error contact_result"
    using create_contact_cases[of srv f l ph ?aq] assms(5,6) by auto
  have "exchanges st3 = exchanges st @ [(?q, srv (sent st) ?q), (?cq, srv (sent ?aq) ?cq)]"
    using create_contact_exchanges[of srv f l ph ?aq] assms(5)
    by (simp add: after_query_exchanges)
  then have "issued st st3 = [?q, ?cq]"
    by (simp add: issued_def sent_def)
  with gc err show ?thesis by simp
qed

theorem contact_failure_skips_lead_witness:
  "fst (get_contact (scripted [ok_json no_contacts, status_only 500]) noon
          (JStr ''Ann'') (JStr ''Lee'') (JStr ''+998901234567'') io0) =
     Inr [(''status'', JStr ''error''),
          (''message'', JStr ''Wrong request, status code 500, reason: Unknown Error'')] \<and>
   filter is_lead_create
     (issued io0 (snd (get_contact (scripted [ok_json no_contacts, status_only 500]) noon
          (JStr ''Ann'') (JStr ''Lee'') (JStr ''+998901234567'') io0))) = []"
proof -
  let ?srv = "scripted [ok_json no_contacts, status_only 500]"
  let ?ph = "JStr ''+998901234567''"
  let ?r = "\<lparr>status_code = 200, status_reason = None, content = JsonBody no_contacts\<rparr>"
  let ?cc = "create_contact ?srv (JStr ''Ann'') (JStr ''Lee'') ?ph (after_query ?srv ?ph io0)"
  have h1: "?srv (sent io0) (crm_request GET ''Contact'' (contact_query ?ph)) = Responded ?r"
    by (simp add: scripted_def ok_json_def io0_def sent_def)
  have h2: "status_code ?r = 200" by simp
  have h3: "content ?r = JsonBody (JDict [(''total'', JInt 0), (''list'', JList [])])"
    by (simp add: no_contacts_def)
  have h4: "py_eq_int (dict_get [(''total'', JInt 0), (''list'', JList [])] ''total'' (JInt 0)) 0"
    by (simp add: dict_get_def)
  have h5: "?cc = (fst ?cc, snd ?cc)" by simp
  have res: "fst ?cc = [(''status'', JStr ''error''),
          (''message'', JStr ''Wrong request, status code 500, reason: Unknown Error'')]"
    by (simp add: run_defs after_query_def)
  then have h6: "map_of (fst ?cc) ''status'' \<noteq> Some (JStr ''success'')" by simp
  from contact_failure_skips_lead[where srv = ?srv and st = io0 and ph = ?ph and now = noon,
         OF h1 h2 h3 h4 h5 h6] res
  show ?thesis by simp
qed

subsection \<open>Claim C2\<close>

lemma digit_char_eq: "digit_char a = digit_char b \<longleftrightarrow> a mod 10 = b mod 10"
proof -
  have cases: "\<And>n::nat. n < 10 \<Longrightarrow> n \<in> {0,1,2,3,4,5,6,7,8,9}" by auto
  have "a mod 10 < 10" "b mod 10 < 10" by simp_all
  from cases[OF this(1)] cases[OF this(2)] show ?thesis
    by (auto simp: digit_char_def)
qed

lemma div_mod_10_eq: "(a::nat) div 10 = b div 10 \<Longrightarrow> a mod 10 = b mod 10 \<Longrightarrow> a = b"
  by (metis div_mult_mod_eq)

lemma pad2_inj: "n < 100 \<Longrightarrow> m < 100 \<Longrightarrow> pad2 n = pad2 m \<longleftrightarrow> n = m"
proof
  assume b: "n < 100" "m < 100" and "pad2 n = pad2 m"
  then have d: "n div 10 mod 10 = m div 10 mod 10" "n mod 10 = m mod 10"
    by (simp_all add: pad2_def digit_char_eq)
  from b have "n div 10 < 10" "m div 10 < 10" by simp_all
  with d(1) have "n div 10 = m div 10" by simp
  from this d(2) show "n = m" by (rule div_mod_10_eq)
qed simp

lemma pad4_inj: "n < 10000 \<Longrightarrow> m < 10000 \<Longrightarrow> pad4 n = pad4 m \<longleftrightarrow> n = m"
proof
  assume b: "n < 10000" "m < 10000" and "pad4 n = pad4 m"
  then have d: "n div 1000 mod 10 = m div 1000 mod 10" "n div 100 mod 10 = m div 100 mod 10"
    "n div 10 mod 10 = m div 10 mod 10" "n mod 10 = m mod 10"
    by (simp_all add: pad4_def digit_char_eq)
  from b have "n div 1000 < 10" "m div 1000 < 10" by simp_all
  with d(1) have "n div 1000 = m div 1000" by simp
  then have "n div 100 div 10 = m div 100 div 10" by (simp add: div_mult2_eq[symmetric])
  from this d(2) have "n div 100 = m div 100" by (rule div_mod_10_eq)
  then have "n div 10 div 10 = m div 10 div 10" by (simp add: div_mult2_eq[symmetric])
  from this d(3) have "n div 10 = m div 10" by (rule div_mod_10_eq)
  from this d(4) show "n = m" by (rule div_mod_10_eq)
qed simp

lemma pad_lengths [simp]: "length (pad2 n) = 2" "length (pad4 n) = 4"
  by (simp_all add: pad2_def pad4_def)

text \<open>The timestamp tells two valid times apart exactly when they differ to the second.\<close>

lemma strftime_inj:
  assumes "valid_datetime t1" "valid_datetime t2"
  shows "strftime t1 = strftime t2 \<longleftrightarrow> same_second t1 t2"
proof
  assume "strftime t1 = strftime t2"
  then have "pad4 (year t1) = pad4 (year t2) \<and> pad2 (month t1) = pad2 (month t2) \<and>
     pad2 (day t1) = pad2 (day t2) \<and> pad2 (hour t1) = pad2 (hour t2) \<and>
     pad2 (minute t1) = pad2 (minute t2) \<and> pad2 (second t1) = pad2 (second t2)"
    by (simp add: strftime_def)
  with assms show "same_second t1 t2"
    by (simp add: same_second_def valid_datetime_def pad2_inj pad4_inj)
next
  assume "same_second t1 t2"
  then show "strftime t1 = strftime t2" by (simp add: same_second_def strftime_def)
qed

lemma sent_name_lead_request:
  "sent_name (crm_request POST ''Lead'' (dict_set p ''name'' v)) = Some v"
  by (simp add: sent_name_def map_of_dict_set)

text \<open>
  Claim C2, as stated: two lead-creates for the same person have distinct names even within
  the same second. They do not: the suffix is the creation time to the second and nothing
  else, so two pushes for the same person at 12:00:05.000001 and 12:00:05.999999 both send
  the name \<open>Lead - 20240309120005\<close> (the workflow's payload has no \<open>name\<close>, so the name
  before the suffix is the default \<open>Lead\<close>).
\<close>

theorem same_second_counterexample:
  "same_second noon noon_later \<and> noon \<noteq> noon_later \<and>
   lead_names (sent (snd (push_to_crm four_replies noon_later ann
                      (snd (push_to_crm four_replies noon ann io0)))))
     = [Some (JStr ''Lead - 20240309120005''), Some (JStr ''Lead - 20240309120005'')]"
  by (simp add: run_defs four_replies_def noon_later_def noon_def same_second_def lead_names_def
      sent_name_def is_lead_create_def normalize_url_def first_of_list_def timestamped_name_def
      strftime_def pad2_def pad4_def)

text \<open>
  Claim C2, amended: the name sent by a lead-create is the payload's name (\<open>Lead\<close> when
  there is none) followed by \<open>" - "\<close> and the creation time as \<open>%Y%m%d%H%M%S\<close>; for the
  same input name, two lead-creates have distinct names exactly when their creation times
  differ to the second, and equal names within the same second.
\<close>

theorem lead_name_timestamp:
  "lead_names (sent (snd (create_lead srv now payload st)))
     = lead_names (sent st) @ [Some (JStr (timestamped_name payload now))] \<and>
   timestamped_name payload now
     = py_str (dict_get payload ''name'' (JStr ''Lead'')) @ '' - '' @ strftime now \<and>
   (valid_datetime t1 \<and> valid_datetime t2 \<longrightarrow>
      (timestamped_name payload t1 = timestamped_name payload t2 \<longleftrightarrow> same_second t1 t2))"
proof (intro conjI impI)
  show "lead_names (sent (snd (create_lead srv now payload st)))
          = lead_names (sent st) @ [Some (JStr (timestamped_name payload now))]"
    by (simp add: lead_names_def sent_def create_lead_exchanges sent_name_lead_request)
  show "timestamped_name payload now
     = py_str (dict_get payload ''name'' (JStr ''Lead'')) @ '' - '' @ strftime now"
    by (simp add: timestamped_name_def)
  assume "valid_datetime t1 \<and> valid_datetime t2"
  then show "timestamped_name payload t1 = timestamped_name payload t2 \<longleftrightarrow> same_second t1 t2"
    by (simp add: timestamped_name_def strftime_inj)
qed

theorem lead_name_timestamp_witness:
  "valid_datetime noon \<and> valid_datetime next_second \<and> \<not> same_second noon next_second \<and>
   timestamped_name (lead_payload (JStr ''Ann'') (JStr ''Lee'') (JStr ''+998901234567'')) noon
     \<noteq> timestamped_name (lead_payload (JStr ''Ann'') (JStr ''Lee'') (JStr ''+998901234567''))
         next_second"
proof -
  have v: "valid_datetime noon \<and> valid_datetime next_second"
    by (simp add: valid_datetime_def noon_def next_second_def)
  have d: "\<not> same_second noon next_second"
    by (simp add: same_second_def noon_def next_second_def)
  from lead_name_timestamp[of four_replies noon
         "lead_payload (JStr ''Ann'') (JStr ''Lee'') (JStr ''+998901234567'')" io0 noon next_second]
    v d
  show ?thesis by blast
qed

section \<open>Properties of the call orchestrator\<close>

subsection \<open>What each step sends and returns\<close>

lemma log_items_fields [simp]:
  "exchanges (log_items p st) = exchanges st"
  "stdout (log_items p st) = stdout st"
  "sent (log_items p st) = sent st"
proof -
  have "exchanges (log_items p st) = exchanges st \<and> stdout (log_items p st) = stdout st"
    unfolding log_items_def
    by (induction p arbitrary: st) (simp_all add: logger_def)
  then show "exchanges (log_items p st) = exchanges st" "stdout (log_items p st) = stdout st"
    "sent (log_items p st) = sent st"
    by (simp_all add: sent_def)
qed

lemma print_fields [simp]:
  "exchanges (print m st) = exchanges st" "log (print m st) = log st" "sent (print m st) = sent st"
  by (simp_all add: print_def sent_def)

lemma query_status_exchanges:
  "exchanges (snd (query_status srv st)) = exchanges st @ [(status_request, srv (sent st) status_request)]"
  by (auto simp: query_status_def status_request_def http_send_def Let_def
      split: outcome.splits sum.splits)

lemma query_status_fst:
  "fst (query_status srv st) =
     (case srv (sent st) status_request of
        ConnectionFailed msg \<Rightarrow> JDict [(''status'', JStr ''idle'')]
      | Responded resp \<Rightarrow>
          (case content resp of JsonBody j \<Rightarrow> j | _ \<Rightarrow> JDict [(''status'', JStr ''idle'')]))"
  by (auto simp: query_status_def status_request_def http_send_def Let_def response_json_def
      split: outcome.splits sum.splits body.splits)

lemma query_status_sent_only: "sent st = sent st' \<Longrightarrow> fst (query_status srv st) = fst (query_status srv st')"
  by (simp add: query_status_fst)

lemma make_call_str_exchanges:
  "exchanges (snd (make_call srv (JStr s) st)) = exchanges st @ [(call_request s, srv (sent st) (call_request s))]"
  by (auto simp: make_call_def call_request_def http_send_def Let_def
      split: outcome.splits sum.splits)

lemma is_placement_simps [simp]:
  "\<not> is_placement status_request" "is_placement (call_request s)"
  "is_telephony status_request" "is_telephony (call_request s)"
  by (simp_all add: is_placement_def is_telephony_def status_request_def call_request_def tel_request_def)

lemma issued_same_exchanges: "exchanges st' = exchanges st \<Longrightarrow> issued st st' = []"
  by (simp add: issued_def sent_def)

text \<open>The two halves of \<open>start_call\<close>: the gate on the three fields, and what follows it.\<close>

lemma start_call_gate_closed:
  assumes "parsed = flatten (dict_get params ''result'' (JDict []))"
    and "\<not> (truthy (lead_id_of parsed) \<and> truthy (number_id_of parsed) \<and> truthy (created_by_id_of parsed))"
  shows "start_call srv params st =
           (Inr (), logger WARNING ''Not enough data to initiate a call'' (log_items parsed st))"
  using assms unfolding start_call_def Let_def by auto

lemma start_call_gate_open:
  assumes "parsed = flatten (dict_get params ''result'' (JDict []))"
    and "truthy (lead_id_of parsed)" "truthy (number_id_of parsed)" "truthy (created_by_id_of parsed)"
  shows "start_call srv params st =
     (let st2 = logger INFO ''lead_id, created_by_id, number_id'' (log_items parsed st);
          (status_response, st3) = query_status srv st2
      in case status_response of
           JDict sr \<Rightarrow>
             (let st4 = logger INFO ''Current call status'' st3
              in if dict_get sr ''status'' (JStr ''idle'') = JStr ''idle'' then
                   (case make_call srv (number_id_of parsed) st4 of
                      (Inl e, st5) \<Rightarrow> (Inl e, st5)
                    | (Inr r, st5) \<Rightarrow> (Inr (), st5))
                 else (Inr (), logger INFO ''A call is already active, no new call is initiated'' st4))
         | v \<Rightarrow> (Inl (AttributeError,
                       repr_str (type_name v) @ '' object has no attribute '' @ repr_str ''get''), st3))"
  using assms unfolding start_call_def Let_def by (simp split: prod.splits json.splits)

lemmas call_defs = start_call_def query_status_def make_call_def flatten_def lead_event_def
  lead_id_of_def number_id_of_def created_by_id_of_def resolve_def py_or_def dict_get_def
  log_items_def logger_def print_def http_send_def sent_def issued_def Let_def
  scripted_def ok_json_def idle_reply_def error_503_def io0_def response_json_def
  observed_status_def tel_request_def is_placement_def tel_url_def repr_str_def

text \<open>
  With the three fields resolved and a phone number that is a string, the requests issued
  are the status query and, when the status is \<open>"idle"\<close>, the placement.
\<close>

lemma start_call_requests:
  assumes "parsed = flatten (dict_get params ''result'' (JDict []))"
    and "truthy (lead_id_of parsed)" and "truthy (created_by_id_of parsed)"
    and "number_id_of parsed = JStr s" and "s \<noteq> []"
  shows "issued st (snd (start_call srv params st))
           = status_request #
             (if observed_status srv st = Some (JStr ''idle'') then [call_request s] else [])"
proof -
  define st2 where "st2 = logger INFO ''lead_id, created_by_id, number_id'' (log_items parsed st)"
  obtain sr st3 where qs: "query_status srv st2 = (sr, st3)"
    by (cases "query_status srv st2")
  have s2: "sent st2 = sent st" "exchanges st2 = exchanges st" by (simp_all add: st2_def)
  have sr: "fst (query_status srv st) = sr"
    using qs query_status_sent_only[of st2 st srv] s2 by simp
  have ex3: "exchanges st3 = exchanges st @ [(status_request, srv (sent st) status_request)]"
    using query_status_exchanges[of srv st2] qs s2 by simp
  have tr: "truthy (number_id_of parsed)" using assms(4,5) by simp
  note sc = start_call_gate_open[OF assms(1,2) tr assms(3), of srv st, folded st2_def, unfolded Let_def qs]
  let ?st4 = "logger INFO ''Current call status'' st3"
  have ex5: "exchanges (snd (make_call srv (JStr s) ?st4))
     = exchanges st @ [(status_request, srv (sent st) status_request),
                       (call_request s, srv (sent ?st4) (call_request s))]"
    using make_call_str_exchanges[of srv s ?st4] ex3 by simp
  show ?thesis
  proof (cases "\<exists>d. sr = JDict d")
    case False
    then have "observed_status srv st = None"
      using sr by (cases sr) (simp_all add: observed_status_def)
    moreover have "exchanges (snd (start_call srv params st)) = exchanges st3"
      using False sc by (cases sr) simp_all
    ultimately show ?thesis using ex3 by (simp add: issued_def sent_def)
  next
    case True
    then obtain d where d: "sr = JDict d" by blast
    then have obs: "observed_status srv st = Some (dict_get d ''status'' (JStr ''idle''))"
      using sr by (simp add: observed_status_def)
    show ?thesis
    proof (cases "dict_get d ''status'' (JStr ''idle'') = JStr ''idle''")
      case True
      have "exchanges (snd (start_call srv params st)) = exchanges (snd (make_call srv (JStr s) ?st4))"
        using sc d True assms(4) by (simp split: prod.splits sum.splits)
      with ex5 obs True show ?thesis by (simp add: issued_def sent_def)
    next
      case False
      have "exchanges (snd (start_call srv params st)) = exchanges st3"
        using sc d False by simp
      with ex3 obs False show ?thesis by (simp add: issued_def sent_def)
    qed
  qed
qed

subsection \<open>Claim C6\<close>

text \<open>
  Claim C6. When one of the three required fields is missing after alias resolution
  (neither of its two paths is a key of the flattened event), \<open>start_call\<close> returns
  normally, issues no HTTP request at all, and the one record it adds to the log after the
  \<open>key = value\<close> lines is the warning.
\<close>

theorem missing_field_no_call:
  assumes "parsed = flatten (dict_get params ''result'' (JDict []))"
    and "(map_of parsed ''crm_result.lead.lead.id'' = None \<and>
          map_of parsed ''crm_result.contact.id'' = None) \<or>
         (map_of parsed ''crm_result.lead.lead.phoneNumber'' = None \<and>
          map_of parsed ''crm_result.contact.phoneNumber'' = None) \<or>
         (map_of parsed ''crm_result.lead.lead.createdById'' = None \<and>
          map_of parsed ''crm_result.contact.createdById'' = None)"
  shows "fst (start_call srv params st) = Inr () \<and>
         issued st (snd (start_call srv params st)) = [] \<and>
         log (snd (start_call srv params st))
           = log (log_items parsed st) @ [(WARNING, ''Not enough data to initiate a call'')]"
proof -
  from assms(2) have "\<not> (truthy (lead_id_of parsed) \<and> truthy (number_id_of parsed) \<and>
      truthy (created_by_id_of parsed))"
    by (auto simp: lead_id_of_def number_id_of_def created_by_id_of_def resolve_def py_or_def dict_get_def)
  from start_call_gate_closed[OF assms(1) this, of srv st] show ?thesis
    by (simp add: issued_same_exchanges)
qed

theorem missing_field_no_call_witness:
  "fst (start_call (scripted [idle_reply]) event_without_creator io0) = Inr () \<and>
   issued io0 (snd (start_call (scripted [idle_reply]) event_without_creator io0)) = [] \<and>
   last (log (snd (start_call (scripted [idle_reply]) event_without_creator io0)))
     = (WARNING, ''Not enough data to initiate a call'')"
proof -
  let ?parsed = "flatten (dict_get event_without_creator ''result'' (JDict []))"
  have h: "map_of ?parsed ''crm_result.lead.lead.createdById'' = None \<and>
           map_of ?parsed ''crm_result.contact.createdById'' = None"
    by (simp add: flatten_def dict_get_def event_without_creator_def)
  from missing_field_no_call[where parsed = ?parsed and params = event_without_creator
         and srv = "scripted [idle_reply]" and st = io0, OF refl] h
  show ?thesis by simp
qed

subsection \<open>Claim C9\<close>

lemma alias_falsy_resolve: "alias_falsy parsed a b \<Longrightarrow> \<not> truthy (resolve parsed a b)"
  by (auto simp: alias_falsy_def falsy_values_def resolve_def py_or_def dict_get_def
      split: option.splits)

text \<open>
  Claim C9. When each of the three required fields is present in the flattened event (one
  of its two paths is a key) but one of them has a falsy value (\<open>None\<close>, \<open>False\<close>, \<open>0\<close>
  or the empty string, under every one of its paths that is a key), \<open>start_call\<close> does as
  for a missing field: it returns normally, issues no HTTP request and logs the warning.
\<close>

theorem falsy_field_no_call:
  assumes "parsed = flatten (dict_get params ''result'' (JDict []))"
    and "alias_present parsed ''crm_result.lead.lead.id'' ''crm_result.contact.id'' \<and>
         alias_present parsed ''crm_result.lead.lead.phoneNumber''
           ''crm_result.contact.phoneNumber'' \<and>
         alias_present parsed ''crm_result.lead.lead.createdById''
           ''crm_result.contact.createdById''"
    and "alias_falsy parsed ''crm_result.lead.lead.id'' ''crm_result.contact.id'' \<or>
         alias_falsy parsed ''crm_result.lead.lead.phoneNumber''
           ''crm_result.contact.phoneNumber'' \<or>
         alias_falsy parsed ''crm_result.lead.lead.createdById''
           ''crm_result.contact.createdById''"
  shows "fst (start_call srv params st) = Inr () \<and>
         issued st (snd (start_call srv params st)) = [] \<and>
         log (snd (start_call srv params st))
           = log (log_items parsed st) @ [(WARNING, ''Not enough data to initiate a call'')]"
proof -
  from assms(3) have "\<not> (truthy (lead_id_of parsed) \<and> truthy (number_id_of parsed) \<and>
      truthy (created_by_id_of parsed))"
    using alias_falsy_resolve
    by (auto simp: lead_id_of_def number_id_of_def created_by_id_of_def)
  from start_call_gate_closed[OF assms(1) this, of srv st] show ?thesis
    by (simp add: issued_same_exchanges)
qed

theorem falsy_field_no_call_witness:
  "map_of (flatten (dict_get (lead_event (JInt 0) (JStr ''+998901234567'') (JStr ''u1''))
                      ''result'' (JDict []))) ''crm_result.lead.lead.id'' = Some (JInt 0) \<and>
   fst (start_call (scripted [idle_reply])
          (lead_event (JInt 0) (JStr ''+998901234567'') (JStr ''u1'')) io0) = Inr () \<and>
   issued io0 (snd (start_call (scripted [idle_reply])
          (lead_event (JInt 0) (JStr ''+998901234567'') (JStr ''u1'')) io0)) = []"
proof -
  let ?ev = "lead_event (JInt 0) (JStr ''+998901234567'') (JStr ''u1'')"
  let ?parsed = "flatten (dict_get ?ev ''result'' (JDict []))"
  have p: "?parsed = [(''status'', JStr ''pushed''), (''crm_result.status'', JStr ''success''),
      (''crm_result.lead.status'', JStr ''success''), (''crm_result.lead.lead.id'', JInt 0),
      (''crm_result.lead.lead.phoneNumber'', JStr ''+998901234567''),
      (''crm_result.lead.lead.createdById'', JStr ''u1'')]"
    by (simp add: flatten_def dict_get_def lead_event_def)
  have h1: "alias_present ?parsed ''crm_result.lead.lead.id'' ''crm_result.contact.id'' \<and>
         alias_present ?parsed ''crm_result.lead.lead.phoneNumber''
           ''crm_result.contact.phoneNumber'' \<and>
         alias_present ?parsed ''crm_result.lead.lead.createdById''
           ''crm_result.contact.createdById''"
    unfolding p by (simp add: alias_present_def)
  have v: "map_of ?parsed ''crm_result.lead.lead.id'' = Some (JInt 0)"
    unfolding p by simp
  have "alias_falsy ?parsed ''crm_result.lead.lead.id'' ''crm_result.contact.id''"
    unfolding p by (simp add: alias_falsy_def falsy_values_def)
  then have h2: "alias_falsy ?parsed ''crm_result.lead.lead.id'' ''crm_result.contact.id'' \<or>
         alias_falsy ?parsed ''crm_result.lead.lead.phoneNumber''
           ''crm_result.contact.phoneNumber'' \<or>
         alias_falsy ?parsed ''crm_result.lead.lead.createdById''
           ''crm_result.contact.createdById''"
    by simp
  from falsy_field_no_call[where parsed = ?parsed and params = ?ev
         and srv = "scripted [idle_reply]" and st = io0, OF refl h1 h2] v
  show ?thesis by simp
qed

subsection \<open>Claim C5\<close>

text \<open>
  Claim C5, as stated: with all three fields resolved, a placement request is issued if and
  only if the observed status is \<open>"idle"\<close>. It fails for a phone number that is not a
  string: a JSON number is truthy, so the fields are resolved, but \<open>make_call\<close> (declared
  \<open>number: str\<close>) raises \<open>TypeError\<close> on \<open>number[-9:]\<close> before any request is made.
\<close>

theorem int_phone_counterexample:
  "truthy (lead_id_of (flatten (dict_get (lead_event (JStr ''L1'') (JInt 998901234567) (JStr ''u1''))
                                  ''result'' (JDict [])))) \<and>
   truthy (number_id_of (flatten (dict_get (lead_event (JStr ''L1'') (JInt 998901234567) (JStr ''u1''))
                                  ''result'' (JDict [])))) \<and>
   truthy (created_by_id_of (flatten (dict_get (lead_event (JStr ''L1'') (JInt 998901234567) (JStr ''u1''))
                                  ''result'' (JDict [])))) \<and>
   observed_status (scripted [idle_reply]) io0 = Some (JStr ''idle'') \<and>
   filter is_placement
     (issued io0 (snd (start_call (scripted [idle_reply])
                         (lead_event (JStr ''L1'') (JInt 998901234567) (JStr ''u1'')) io0))) = [] \<and>
   fst (start_call (scripted [idle_reply])
          (lead_event (JStr ''L1'') (JInt 998901234567) (JStr ''u1'')) io0)
     = Inl (TypeError, [CHR 0x27] @ ''int'' @ [CHR 0x27] @ '' object is not subscriptable'')"
  by (simp add: call_defs)

text \<open>
  Claim C5, amended: with all three fields resolved and the phone number a string, the
  requests issued are the status query and, if and only if the observed status is
  \<open>"idle"\<close>, exactly one placement request whose number is the last 9 characters of the
  phone number; for any other status, and for a status response that is not a mapping, no
  placement request is issued.
\<close>

theorem call_placed_iff_idle:
  assumes "parsed = flatten (dict_get params ''result'' (JDict []))"
    and "truthy (lead_id_of parsed)" and "truthy (created_by_id_of parsed)"
    and "number_id_of parsed = JStr s" and "s \<noteq> []"
  shows "issued st (snd (start_call srv params st))
           = status_request # (if observed_status srv st = Some (JStr ''idle'') then [call_request s] else []) \<and>
         filter is_placement (issued st (snd (start_call srv params st)))
           = (if observed_status srv st = Some (JStr ''idle'') then [call_request s] else [])"
proof -
  let ?placed = "if observed_status srv st = Some (JStr ''idle'') then [call_request s] else []"
  have i: "issued st (snd (start_call srv params st)) = status_request # ?placed"
    using assms by (rule start_call_requests)
  have "filter is_placement (status_request # ?placed) = ?placed"
    by simp
  with i show ?thesis by simp
qed

theorem call_placed_iff_idle_witness:
  "filter is_placement
     (issued io0 (snd (start_call (scripted [idle_reply, ok_json (JDict [])])
          (lead_event (JStr ''L1'') (JStr ''+998901234567'') (JStr ''u1'')) io0)))
     = [tel_request [(''action'', JStr ''call''), (''number'', JStr ''901234567'')]]"
proof -
  let ?ev = "lead_event (JStr ''L1'') (JStr ''+998901234567'') (JStr ''u1'')"
  let ?srv = "scripted [idle_reply, ok_json (JDict [])]"
  let ?parsed = "flatten (dict_get ?ev ''result'' (JDict []))"
  have p: "?parsed = [(''status'', JStr ''pushed''), (''crm_result.status'', JStr ''success''),
      (''crm_result.lead.status'', JStr ''success''), (''crm_result.lead.lead.id'', JStr ''L1''),
      (''crm_result.lead.lead.phoneNumber'', JStr ''+998901234567''),
      (''crm_result.lead.lead.createdById'', JStr ''u1'')]"
    by (simp add: flatten_def dict_get_def lead_event_def)
  have h1: "truthy (lead_id_of ?parsed)"
    unfolding p by (simp add: lead_id_of_def resolve_def py_or_def dict_get_def)
  have h2: "truthy (created_by_id_of ?parsed)"
    unfolding p by (simp add: created_by_id_of_def resolve_def py_or_def dict_get_def)
  have h3: "number_id_of ?parsed = JStr ''+998901234567''"
    unfolding p by (simp add: number_id_of_def resolve_def py_or_def dict_get_def)
  have h4: "''+998901234567'' \<noteq> []" by simp
  have obs: "observed_status ?srv io0 = Some (JStr ''idle'')"
    by (simp add: call_defs)
  from call_placed_iff_idle[where parsed = ?parsed and params = ?ev and srv = ?srv and st = io0,
         OF refl h1 h2 h3 h4, THEN conjunct2] obs
  show ?thesis by (simp add: call_request_def)
qed

subsection \<open>Claim C7\<close>

text \<open>
  When the status query raises (no response, or a body that is not JSON), the exception is
  logged as an error, the status is taken to be \<open>"idle"\<close> and the call is placed.
\<close>

lemma status_query_exception_fails_open:
  assumes "parsed = flatten (dict_get params ''result'' (JDict []))"
    and "truthy (lead_id_of parsed)" and "truthy (created_by_id_of parsed)"
    and "number_id_of parsed = JStr s" and "s \<noteq> []"
    and "query_raises (srv (sent st) status_request)"
  shows "observed_status srv st = Some (JStr ''idle'') \<and>
         issued st (snd (start_call srv params st)) = [status_request, call_request s] \<and>
         (ERROR, ''Error while getting the call status'') \<in> set (log (snd (start_call srv params st)))"
proof -
  have obs: "observed_status srv st = Some (JStr ''idle'')"
    using assms(6)
    by (auto simp: observed_status_def query_status_fst query_raises_def dict_get_def
        split: outcome.splits body.splits)
  have iss: "issued st (snd (start_call srv params st)) = [status_request, call_request s]"
    using start_call_requests[OF assms(1-5), of st srv] obs by simp
  define st2 where "st2 = logger INFO ''lead_id, created_by_id, number_id'' (log_items parsed st)"
  have s2: "sent st2 = sent st" by (simp add: st2_def)
  obtain sr st3 where qs: "query_status srv st2 = (sr, st3)"
    by (cases "query_status srv st2")
  have sr: "sr = JDict [(''status'', JStr ''idle'')]"
    and lg: "(ERROR, ''Error while getting the call status'') \<in> set (log st3)"
    using qs assms(6) s2
    by (auto simp: query_status_def http_send_def Let_def query_raises_def response_json_def
        status_request_def split: outcome.splits body.splits)
  have tr: "truthy (number_id_of parsed)" using assms(4,5) by simp
  note sc = start_call_gate_open[OF assms(1,2) tr assms(3), of srv st, folded st2_def, unfolded Let_def qs]
  let ?st4 = "logger INFO ''Current call status'' st3"
  have mono: "set (log ?st4) \<subseteq> set (log (snd (make_call srv (JStr s) ?st4)))"
    by (auto simp: make_call_def http_send_def Let_def print_def split: outcome.splits sum.splits)
  have "snd (start_call srv params st) = snd (make_call srv (JStr s) ?st4)"
    using sc sr assms(4) by (simp add: dict_get_def split: prod.splits sum.splits)
  with mono lg have "(ERROR, ''Error while getting the call status'') \<in> set (log (snd (start_call srv params st)))"
    by auto
  with obs iss show ?thesis by simp
qed

text \<open>
  Claim C7 says that a status query failing with a network or an HTTP error is treated as
  \<open>"idle"\<close>, the call attempted and the error logged. An HTTP error is not detected: the
  status query never looks at the status code (\<open>make_call\<close> does, with
  \<open>raise_for_status\<close>). When the endpoint answers 503 with the JSON body
  \<open>{"status": "error", ...}\<close>, the body is read as the telephony status, which is not
  \<open>"idle"\<close>: the only request issued is the status query, no call is placed, and nothing is
  logged at level \<open>ERROR\<close>.
\<close>

theorem http_error_status_not_idle:
  "fst (start_call (scripted [error_503])
          (lead_event (JStr ''L1'') (JStr ''+998901234567'') (JStr ''u1'')) io0) = Inr () \<and>
   issued io0 (snd (start_call (scripted [error_503])
          (lead_event (JStr ''L1'') (JStr ''+998901234567'') (JStr ''u1'')) io0)) = [status_request] \<and>
   ERROR \<notin> set (map fst (log (snd (start_call (scripted [error_503])
          (lead_event (JStr ''L1'') (JStr ''+998901234567'') (JStr ''u1'')) io0)))) \<and>
   last (log (snd (start_call (scripted [error_503])
          (lead_event (JStr ''L1'') (JStr ''+998901234567'') (JStr ''u1'')) io0)))
     = (INFO, ''A call is already active, no new call is initiated'')"
  by (simp add: call_defs status_request_def)

end
